theory Spec2Isabelle
  imports Complex_Main
begin

section \<open>JavaScript values used by the monitoring room\<close>

text \<open>
  The development embeds \<^verbatim>\<open>src/pages/CheckerMonitoringRoom.tsx\<close>. A JavaScript string is
  a sequence of UTF-16 code units; a code unit is modelled as a natural number, and
  \<open>js\<close> lifts an ASCII literal of the source into that representation.
\<close>

type_synonym jsstring = "nat list"

definition js :: "string \<Rightarrow> jsstring" where
  "js s = map of_char s"

abbreviation (input) cu :: "char \<Rightarrow> nat" where
  "cu c \<equiv> of_char c"

text \<open>
  \<^verbatim>\<open>String.prototype.trim\<close> removes WhiteSpace and LineTerminator code points from both
  ends: TAB, LF, VT, FF, CR, SP, NBSP, U+1680, U+2000..U+200A, U+2028, U+2029, U+202F,
  U+205F, U+3000 and U+FEFF.
\<close>

definition isWhiteSpace :: "nat \<Rightarrow> bool" where
  "isWhiteSpace c =
     (c \<in> set [9, 10, 11, 12, 13, 32, 160, 5760, 8232, 8233, 8239, 8287, 12288, 65279]
      \<or> (8192 \<le> c \<and> c \<le> 8202))"

definition trim :: "jsstring \<Rightarrow> jsstring" where
  "trim s = rev (dropWhile isWhiteSpace (rev (dropWhile isWhiteSpace s)))"

definition isDigit :: "nat \<Rightarrow> bool" where
  "isDigit c = (48 \<le> c \<and> c \<le> 57)"

definition isUpperAlpha :: "nat \<Rightarrow> bool" where
  "isUpperAlpha c = (65 \<le> c \<and> c \<le> 90)"

definition isLowerAlpha :: "nat \<Rightarrow> bool" where
  "isLowerAlpha c = (97 \<le> c \<and> c \<le> 122)"

definition isAlnum :: "nat \<Rightarrow> bool" where
  "isAlnum c = (isLowerAlpha c \<or> isUpperAlpha c \<or> isDigit c)"

definition isUpperAlnum :: "nat \<Rightarrow> bool" where
  "isUpperAlnum c = (isUpperAlpha c \<or> isDigit c)"

text \<open>
  \<^verbatim>\<open>toUpperCase\<close> and \<^verbatim>\<open>toLowerCase\<close> are modelled on ASCII letters; code units outside
  ASCII are left as they are (the Unicode case tables are not part of the model). The
  source applies \<^verbatim>\<open>toUpperCase\<close> in \<^verbatim>\<open>normalizeVatInput\<close> to a string it has already
  reduced to ASCII letters and digits, where the model is exact.
\<close>

definition toUpperCase :: "jsstring \<Rightarrow> jsstring" where
  "toUpperCase s = map (\<lambda>c. if isLowerAlpha c then c - 32 else c) s"

definition toLowerCase :: "jsstring \<Rightarrow> jsstring" where
  "toLowerCase s = map (\<lambda>c. if isUpperAlpha c then c + 32 else c) s"

subsection \<open>Numbers\<close>

text \<open>
  A JavaScript number is NaN, an infinity, or a finite value. A finite value carries the
  mathematical value of the literal it was read from; the rounding to an IEEE double
  (and so overflow to an infinity and the sign of zero) is not modelled.
\<close>

datatype jsnumber = NaN | PosInfinity | NegInfinity | Finite rat

fun negate :: "jsnumber \<Rightarrow> jsnumber" where
  "negate NaN = NaN"
| "negate PosInfinity = NegInfinity"
| "negate NegInfinity = PosInfinity"
| "negate (Finite q) = Finite (- q)"

definition digitVal :: "nat \<Rightarrow> nat" where
  "digitVal c =
     (if isDigit c then c - 48
      else if 97 \<le> c \<and> c \<le> 102 then c - 87
      else if 65 \<le> c \<and> c \<le> 70 then c - 55
      else 0)"

definition digitsValue :: "nat \<Rightarrow> jsstring \<Rightarrow> nat" where
  "digitsValue base ds = foldl (\<lambda>acc c. acc * base + digitVal c) 0 ds"

definition isHexDigit :: "nat \<Rightarrow> bool" where
  "isHexDigit c = (isDigit c \<or> (97 \<le> c \<and> c \<le> 102) \<or> (65 \<le> c \<and> c \<le> 70))"

definition isOctalDigit :: "nat \<Rightarrow> bool" where
  "isOctalDigit c = (48 \<le> c \<and> c \<le> 55)"

definition isBinaryDigit :: "nat \<Rightarrow> bool" where
  "isBinaryDigit c = (c = 48 \<or> c = 49)"

text \<open>
  \<^verbatim>\<open>Number(string)\<close> follows the StringNumericLiteral grammar of ECMAScript:
  optional white space around either a signed decimal literal (\<^verbatim>\<open>Infinity\<close>, digits with
  an optional fraction and exponent, or a fraction alone) or an unsigned \<^verbatim>\<open>0x\<close>,
  \<^verbatim>\<open>0o\<close>, \<^verbatim>\<open>0b\<close> integer literal. The empty string is 0; anything else is NaN.
\<close>

definition exponentPart :: "rat \<Rightarrow> jsstring \<Rightarrow> jsnumber" where
  "exponentPart m r =
     (case r of
        [] \<Rightarrow> Finite m
      | c # r' \<Rightarrow>
          if c = cu CHR ''e'' \<or> c = cu CHR ''E'' then
            (case r' of
               [] \<Rightarrow> NaN
             | s # ds \<Rightarrow>
                 if s = cu CHR ''-'' then
                   (if ds \<noteq> [] \<and> list_all isDigit ds
                    then Finite (m / 10 ^ digitsValue 10 ds) else NaN)
                 else if s = cu CHR ''+'' then
                   (if ds \<noteq> [] \<and> list_all isDigit ds
                    then Finite (m * 10 ^ digitsValue 10 ds) else NaN)
                 else
                   (if list_all isDigit r'
                    then Finite (m * 10 ^ digitsValue 10 r') else NaN))
          else NaN)"

definition strUnsignedDecimalLiteral :: "jsstring \<Rightarrow> jsnumber" where
  "strUnsignedDecimalLiteral s =
     (if s = js ''Infinity'' then PosInfinity
      else
        let ip = takeWhile isDigit s; r1 = dropWhile isDigit s in
        (case r1 of
           [] \<Rightarrow> if ip = [] then NaN else Finite (of_nat (digitsValue 10 ip))
         | c # r2 \<Rightarrow>
             if c = cu CHR ''.'' then
               (let fp = takeWhile isDigit r2; r3 = dropWhile isDigit r2 in
                if ip = [] \<and> fp = [] then NaN
                else exponentPart
                       (of_nat (digitsValue 10 ip)
                          + of_nat (digitsValue 10 fp) / 10 ^ length fp) r3)
             else if ip = [] then NaN
             else exponentPart (of_nat (digitsValue 10 ip)) r1))"

definition strDecimalLiteral :: "jsstring \<Rightarrow> jsnumber" where
  "strDecimalLiteral s =
     (case s of
        [] \<Rightarrow> NaN
      | c # r \<Rightarrow>
          if c = cu CHR ''+'' then strUnsignedDecimalLiteral r
          else if c = cu CHR ''-'' then negate (strUnsignedDecimalLiteral r)
          else strUnsignedDecimalLiteral s)"

definition nonDecimalIntegerLiteral :: "jsstring \<Rightarrow> nat option" where
  "nonDecimalIntegerLiteral s =
     (case s of
        z # x # ds \<Rightarrow>
          if z = cu CHR ''0'' \<and> ds \<noteq> [] then
            (if (x = cu CHR ''x'' \<or> x = cu CHR ''X'') \<and> list_all isHexDigit ds
               then Some (digitsValue 16 ds)
             else if (x = cu CHR ''o'' \<or> x = cu CHR ''O'') \<and> list_all isOctalDigit ds
               then Some (digitsValue 8 ds)
             else if (x = cu CHR ''b'' \<or> x = cu CHR ''B'') \<and> list_all isBinaryDigit ds
               then Some (digitsValue 2 ds)
             else None)
          else None
      | _ \<Rightarrow> None)"

definition strNumericLiteral :: "jsstring \<Rightarrow> jsnumber" where
  "strNumericLiteral s =
     (case nonDecimalIntegerLiteral s of
        Some n \<Rightarrow> Finite (of_nat n)
      | None \<Rightarrow> strDecimalLiteral s)"

definition jsNumber :: "jsstring \<Rightarrow> jsnumber" where
  "jsNumber s = (let t = trim s in if t = [] then Finite 0 else strNumericLiteral t)"

subsection \<open>Module-level helpers of the page\<close>

text \<open>\<^verbatim>\<open>sanitizeSearchTerm\<close>: trim, delete every \<^verbatim>\<open>%\<close> and \<^verbatim>\<open>_\<close>, turn commas into spaces.\<close>

definition sanitizeSearchTerm :: "jsstring \<Rightarrow> jsstring" where
  "sanitizeSearchTerm v =
     map (\<lambda>c. if c = cu CHR '','' then cu CHR '' '' else c)
       (filter (\<lambda>c. c \<noteq> cu CHR ''%'' \<and> c \<noteq> cu CHR ''_'') (trim v))"

text \<open>\<^verbatim>\<open>normalizeVatInput\<close>: delete everything but ASCII letters and digits, then upper-case.\<close>

definition normalizeVatInput :: "jsstring \<Rightarrow> jsstring" where
  "normalizeVatInput v = toUpperCase (filter isAlnum v)"

text \<open>\<^verbatim>\<open>/^[A-Z]{2}[A-Z0-9]{2,14}$/\<close>, \<^verbatim>\<open>/^[A-Z]{2}$/\<close> and \<^verbatim>\<open>/^\d{4}-\d{2}-\d{2}$/\<close>.\<close>

definition isVatLike :: "jsstring \<Rightarrow> bool" where
  "isVatLike v =
     (4 \<le> length v \<and> length v \<le> 16
      \<and> list_all isUpperAlpha (take 2 v) \<and> list_all isUpperAlnum (drop 2 v))"

definition isIsoCountryCodeLike :: "jsstring \<Rightarrow> bool" where
  "isIsoCountryCodeLike v = (length v = 2 \<and> list_all isUpperAlpha v)"

definition isIsoDate :: "jsstring \<Rightarrow> bool" where
  "isIsoDate v =
     (length v = 10
      \<and> list_all isDigit (take 4 v) \<and> v ! 4 = cu CHR ''-''
      \<and> list_all isDigit (take 2 (drop 5 v)) \<and> v ! 7 = cu CHR ''-''
      \<and> list_all isDigit (drop 8 v))"

text \<open>
  The match of \<^verbatim>\<open>/^([A-Z]{2})([A-Z0-9]{2,14})$/\<close> in \<^verbatim>\<open>fetchRawData\<close>: the two capture
  groups, or no match.
\<close>

definition requesterMatch :: "jsstring \<Rightarrow> (jsstring \<times> jsstring) option" where
  "requesterMatch v = (if isVatLike v then Some (take 2 v, drop 2 v) else None)"

datatype Periodicity = Daily | Weekly | Monthly | Inactive

fun periodicityText :: "Periodicity \<Rightarrow> jsstring" where
  "periodicityText Daily = js ''daily''"
| "periodicityText Weekly = js ''weekly''"
| "periodicityText Monthly = js ''monthly''"
| "periodicityText Inactive = js ''inactive''"


subsection \<open>Calendar dates\<close>

text \<open>
  \<^verbatim>\<open>getNextIsoDate\<close> parses \<^verbatim>\<open>`${isoDate}T00:00:00.000Z`\<close> with \<^verbatim>\<open>new Date\<close>, adds a day
  and prints the first ten characters of \<^verbatim>\<open>toISOString()\<close>. Its only call site passes a
  string accepted by \<open>isIsoDate\<close>. A month outside 01..12 or a day outside 01..31 gives an
  invalid Date, and \<^verbatim>\<open>toISOString\<close> of an invalid Date throws a RangeError. For a day
  within 01..31 that the month does not have, engines differ: \<open>lenient\<close> says whether the
  engine rolls the date over into the next month (as V8 does) or rejects it.
\<close>

datatype js_error = RangeError | BackendError jsstring

definition isLeapYear :: "nat \<Rightarrow> bool" where
  "isLeapYear y = (y mod 4 = 0 \<and> (y mod 400 = 0 \<or> y mod 100 \<noteq> 0))"

definition daysInMonth :: "nat \<Rightarrow> nat \<Rightarrow> nat" where
  "daysInMonth y m =
     (if m = 2 then (if isLeapYear y then 29 else 28)
      else if m = 4 \<or> m = 6 \<or> m = 9 \<or> m = 11 then 30
      else 31)"

definition pad :: "nat \<Rightarrow> nat \<Rightarrow> jsstring" where
  "pad w n = map (\<lambda>i. 48 + (n div 10 ^ (w - 1 - i)) mod 10) [0..<w]"

definition isoDateString :: "nat \<Rightarrow> nat \<Rightarrow> nat \<Rightarrow> jsstring" where
  "isoDateString y m d =
     (if y \<le> 9999 then pad 4 y @ js ''-'' @ pad 2 m @ js ''-'' @ pad 2 d
      else take 10 (js ''+'' @ pad 6 y @ js ''-'' @ pad 2 m @ js ''-'' @ pad 2 d))"

definition rollOver :: "nat \<times> nat \<times> nat \<Rightarrow> nat \<times> nat \<times> nat" where
  "rollOver ymd =
     (case ymd of (y, m, d) \<Rightarrow>
        if d \<le> daysInMonth y m then (y, m, d)
        else if m < 12 then (y, m + 1, d - daysInMonth y m)
        else (y + 1, 1, d - daysInMonth y m))"

definition getNextIsoDate :: "bool \<Rightarrow> jsstring \<Rightarrow> js_error + jsstring" where
  "getNextIsoDate lenient isoDate =
     (let y = digitsValue 10 (take 4 isoDate);
          m = digitsValue 10 (take 2 (drop 5 isoDate));
          d = digitsValue 10 (drop 8 isoDate)
      in if m < 1 \<or> 12 < m \<or> d < 1 \<or> 31 < d \<or> (daysInMonth y m < d \<and> \<not> lenient)
         then Inl RangeError
         else (case rollOver (y, m, d + 1) of
                 (y', m', d') \<Rightarrow> Inr (isoDateString y' m' d')))"

section \<open>Rows, predicates and the remote collaborators\<close>

text \<open>
  The \<^verbatim>\<open>reference\<close> column is jsonb. The page reads only string members of it, so a
  reference is modelled as an object whose members are strings or \<^verbatim>\<open>null\<close>, or as
  something that is not an object (SQL NULL, JSON null, a scalar or an array).
\<close>

datatype jsonb = NotAnObject | Object "(jsstring \<times> jsstring option) list"

record MonitoredNumber =
  uuid :: jsstring
  country_code :: jsstring
  vat_number :: jsstring
  country_code_requester :: "jsstring option"
  vat_number_requester :: "jsstring option"
  periodicity :: jsstring
  number_of_checks :: "int option"
  user_uuid :: jsstring
  last_check_date :: "jsstring option"
  last_check_valid :: "bool option"
  last_check_checked_at :: "jsstring option"
  last_check_name :: "jsstring option"
  created_at :: jsstring
  reference :: jsonb

record LatestCheckRow =
  vat_number_uuid :: "jsstring option"
  valid :: "bool option"
  vat_check_date :: "jsstring option"
  name :: "jsstring option"

datatype MonitoringStatusFilter =
  StatusAll | StatusPending | StatusInactive | StatusActive | StatusDeleted

text \<open>
  The calls of the query builder that the page makes. \<open>FNot c v\<close> is
  \<^verbatim>\<open>.not(c, 'eq', v)\<close>; \<open>FOr\<close> holds the disjuncts that the string given to \<^verbatim>\<open>.or(...)\<close>
  lists (\<^verbatim>\<open>'number_of_checks.is.null,number_of_checks.eq.0'\<close> is
  \<open>[FIsNull c, FEq c 0]\<close>); \<open>FIn\<close> is \<^verbatim>\<open>.in(column, values)\<close>.
\<close>

datatype jsvalue = Str jsstring | Num jsnumber

datatype pfilter =
    FEq jsstring jsvalue
  | FNeq jsstring jsvalue
  | FGt jsstring jsvalue
  | FGte jsstring jsvalue
  | FLt jsstring jsvalue
  | FIlike jsstring jsstring
  | FNot jsstring jsvalue
  | FIsNull jsstring
  | FOr "pfilter list"
  | FIn jsstring "jsstring list"

text \<open>
  A paginated query on \<^verbatim>\<open>vat_checker_numbers\<close>: \<^verbatim>\<open>select('*', {count: 'exact'})\<close>, the
  predicates, \<^verbatim>\<open>order('created_at', {ascending: false})\<close> and \<^verbatim>\<open>range(from, to)\<close>.
\<close>

record store_request =
  preds :: "pfilter list"
  range_from :: int
  range_to :: int

text \<open>
  What the component cannot see from inside: the JavaScript engine's treatment of a
  day that the month does not have, and the remote tables. A lookup of the Search Resolver
  is given the string passed to \<^verbatim>\<open>.or(...)\<close> and answers with the selected column of every
  matching row, in the order of the table, or with an error; the \<^verbatim>\<open>.limit\<close> of the
  query is applied by the model. \<open>select_page\<close> is the Record Store's answer to a paginated
  query (rows and exact count), \<open>latest_checks\<close> the check records of a list of entries,
  latest first.
\<close>

record env =
  lenient_dates :: bool
  vat_numbers_uuids :: "jsstring \<Rightarrow> js_error + jsstring option list"
  checks_uuids :: "jsstring \<Rightarrow> js_error + jsstring option list"
  select_page :: "store_request \<Rightarrow> js_error + (MonitoredNumber list \<times> int option)"
  latest_checks :: "jsstring list \<Rightarrow> js_error + LatestCheckRow list"

section \<open>Filter Compiler\<close>

text \<open>
  One step of the \<^verbatim>\<open>forEach\<close> of \<^verbatim>\<open>applyDirectColumnFilters\<close>. A callback that throws
  ends the whole call, so the step returns either the error or the next query.
\<close>

definition applyColumnFilter ::
    "bool \<Rightarrow> pfilter list \<Rightarrow> jsstring \<times> jsstring \<Rightarrow> js_error + pfilter list" where
  "applyColumnFilter lenient nextQuery kv =
     (let key = fst kv; valStr = trim (snd kv) in
      if valStr = [] \<or> key = js ''entity_name'' then Inr nextQuery
      else if key = js ''number_of_checks'' then
        (let numericValue = jsNumber valStr in
         if numericValue \<noteq> NaN then Inr (nextQuery @ [FEq key (Num numericValue)])
         else Inr nextQuery)
      else if key = js ''last_check_date'' then
        (if isIsoDate valStr then Inr (nextQuery @ [FEq key (Str valStr)])
         else Inr nextQuery)
      else if key = js ''created_at'' then
        (if isIsoDate valStr then
           (case getNextIsoDate lenient valStr of
              Inl e \<Rightarrow> Inl e
            | Inr nextDate \<Rightarrow>
                Inr (nextQuery @
                  [FGte (js ''created_at'') (Str (valStr @ js ''T00:00:00.000Z'')),
                   FLt (js ''created_at'') (Str (nextDate @ js ''T00:00:00.000Z''))]))
         else Inr nextQuery)
      else if key = js ''country_code'' then
        (let normalizedCountry = toUpperCase valStr in
         if isIsoCountryCodeLike normalizedCountry
         then Inr (nextQuery @ [FEq (js ''country_code'') (Str normalizedCountry)])
         else Inr nextQuery)
      else if key = js ''periodicity'' then
        (let normalizedPeriodicity = toLowerCase valStr in
         if normalizedPeriodicity \<in> set (map periodicityText [Daily, Weekly, Monthly, Inactive])
         then Inr (nextQuery @ [FEq (js ''periodicity'') (Str normalizedPeriodicity)])
         else Inr nextQuery)
      else Inr (nextQuery @ [FIlike key (js ''%'' @ valStr @ js ''%'')]))"

fun applyDirectColumnFilters ::
    "bool \<Rightarrow> pfilter list \<Rightarrow> (jsstring \<times> jsstring) list \<Rightarrow> js_error + pfilter list" where
  "applyDirectColumnFilters lenient query [] = Inr query"
| "applyDirectColumnFilters lenient query (kv # inputFilters) =
     (case applyColumnFilter lenient query kv of
        Inl e \<Rightarrow> Inl e
      | Inr nextQuery \<Rightarrow> applyDirectColumnFilters lenient nextQuery inputFilters)"

text \<open>
  The requester block of \<^verbatim>\<open>fetchRawData\<close>: \<open>None\<close> is the early
  \<^verbatim>\<open>return { data: [], count: 0 }\<close>, otherwise the predicates added to the query.
\<close>

definition requesterConstraint :: "jsstring \<Rightarrow> pfilter list option" where
  "requesterConstraint rf =
     (if rf \<noteq> js ''__all__'' then
        (case requesterMatch (normalizeVatInput rf) of
           None \<Rightarrow> None
         | Some (g1, g2) \<Rightarrow>
             Some [FEq (js ''country_code_requester'') (Str g1),
                   FEq (js ''vat_number_requester'') (Str g2)])
      else Some [])"

text \<open>The status block of \<^verbatim>\<open>fetchRawData\<close>.\<close>

fun statusPredicates :: "MonitoringStatusFilter \<Rightarrow> pfilter list" where
  "statusPredicates StatusDeleted =
     [FEq (js ''reference->>status'') (Str (js ''deleted''))]"
| "statusPredicates StatusInactive =
     [FEq (js ''periodicity'') (Str (js ''inactive'')),
      FNot (js ''reference->>status'') (Str (js ''deleted''))]"
| "statusPredicates StatusPending =
     [FNeq (js ''periodicity'') (Str (js ''inactive'')),
      FNot (js ''reference->>status'') (Str (js ''deleted'')),
      FOr [FIsNull (js ''number_of_checks''),
           FEq (js ''number_of_checks'') (Num (Finite 0))]]"
| "statusPredicates StatusActive =
     [FNeq (js ''periodicity'') (Str (js ''inactive'')),
      FNot (js ''reference->>status'') (Str (js ''deleted'')),
      FGt (js ''number_of_checks'') (Num (Finite 0))]"
| "statusPredicates StatusAll = []"

section \<open>Search Resolver Client\<close>

text \<open>
  \<^verbatim>\<open>toUniqueUuids\<close>: trimmed strings, empty ones dropped, in a \<^verbatim>\<open>Set\<close>, which keeps the
  first occurrence of every value in insertion order.
\<close>

definition toUniqueUuids :: "jsstring option list \<Rightarrow> jsstring list" where
  "toUniqueUuids values =
     rev (remdups (rev (filter (\<lambda>v. v \<noteq> [])
       (map (\<lambda>v. case v of Some s \<Rightarrow> trim s | None \<Rightarrow> []) values))))"

definition intersectUuids :: "jsstring list \<Rightarrow> jsstring list \<Rightarrow> jsstring list" where
  "intersectUuids left right = filter (\<lambda>v. v \<in> set right) left"

fun join :: "jsstring list \<Rightarrow> jsstring" where
  "join [] = []"
| "join [x] = x"
| "join (x # y # ys) = x @ cu CHR '','' # join (y # ys)"

datatype resolve_mode = SearchMode | EntityMode

definition fetchMatchingVatUuidsFromVatNumbers ::
    "env \<Rightarrow> jsstring \<Rightarrow> resolve_mode \<Rightarrow> jsstring list" where
  "fetchMatchingVatUuidsFromVatNumbers w term mode =
     (if term = [] then []
      else
        let compactVatTerm = filter (\<lambda>c. \<not> isWhiteSpace c) term;
            normalizedCountryTerm = toUpperCase term;
            countryCodeSearchFilter =
              (if mode = SearchMode \<and> isIsoCountryCodeLike normalizedCountryTerm
               then [js ''country_code.eq.'' @ normalizedCountryTerm] else []);
            filtersForSearch =
              (if mode = SearchMode then
                 [js ''vat_number.ilike.%'' @ term @ js ''%'',
                  js ''vat_number.ilike.%'' @ compactVatTerm @ js ''%'']
                 @ countryCodeSearchFilter @
                 [js ''reference->>name.ilike.%'' @ term @ js ''%'',
                  js ''reference->>nom_complet.ilike.%'' @ term @ js ''%'',
                  js ''reference->>counterpart_name.ilike.%'' @ term @ js ''%'',
                  js ''reference->>address.ilike.%'' @ term @ js ''%'',
                  js ''reference->>counterpart_address.ilike.%'' @ term @ js ''%'',
                  js ''reference->>counterpart_address_line.ilike.%'' @ term @ js ''%'',
                  js ''reference->>counterpart_address_city.ilike.%'' @ term @ js ''%'',
                  js ''reference->>counterpart_address_postal_code.ilike.%'' @ term @ js ''%'',
                  js ''reference->>counterpart_address_country.ilike.%'' @ term @ js ''%'']
               else
                 [js ''reference->>name.ilike.%'' @ term @ js ''%'',
                  js ''reference->>nom_complet.ilike.%'' @ term @ js ''%'',
                  js ''reference->>counterpart_name.ilike.%'' @ term @ js ''%''])
        in (case vat_numbers_uuids w (join filtersForSearch) of
              Inl e \<Rightarrow> []
            | Inr rows \<Rightarrow> toUniqueUuids (take 2000 rows)))"

definition fetchMatchingVatUuidsFromChecks :: "env \<Rightarrow> jsstring \<Rightarrow> jsstring list" where
  "fetchMatchingVatUuidsFromChecks w term =
     (if term = [] then []
      else
        let compactVatTerm = filter (\<lambda>c. \<not> isWhiteSpace c) term;
            normalizedCountryTerm = toUpperCase term;
            countryCodeSearchFilter =
              (if isIsoCountryCodeLike normalizedCountryTerm
               then [js ''country_code_check.eq.'' @ normalizedCountryTerm] else []);
            checkSearchFilters =
              [js ''name.ilike.%'' @ term @ js ''%'',
               js ''address.ilike.%'' @ term @ js ''%'',
               js ''vat_number_check.ilike.%'' @ term @ js ''%'',
               js ''vat_number_check.ilike.%'' @ compactVatTerm @ js ''%'']
              @ countryCodeSearchFilter
        in (case checks_uuids w (join checkSearchFilters) of
              Inl e \<Rightarrow> []
            | Inr rows \<Rightarrow> toUniqueUuids (take 2000 (filter (\<lambda>v. v \<noteq> None) rows))))"

definition resolveVatUuidsForSearchTerm :: "env \<Rightarrow> jsstring \<Rightarrow> jsstring list" where
  "resolveVatUuidsForSearchTerm w term =
     (let fromVatNumbers = fetchMatchingVatUuidsFromVatNumbers w term SearchMode;
          fromChecks = fetchMatchingVatUuidsFromChecks w term
      in toUniqueUuids (map Some (fromVatNumbers @ fromChecks)))"

definition resolveVatUuidsForEntityFilter :: "env \<Rightarrow> jsstring \<Rightarrow> jsstring list" where
  "resolveVatUuidsForEntityFilter w term =
     (let fromVatNumbers = fetchMatchingVatUuidsFromVatNumbers w term EntityMode;
          fromChecks = fetchMatchingVatUuidsFromChecks w term
      in toUniqueUuids (map Some (fromVatNumbers @ fromChecks)))"

section \<open>The state of the view\<close>

text \<open>
  The React state and refs of \<^verbatim>\<open>CheckerMonitoringRoom\<close> that the query engine and the
  mutations use. \<open>dataCache\<close> is the state copy of the Page Cache, \<open>dataCacheRef\<close> the ref.
  A value of this record is used in two roles: as the latest state, which state setters
  and refs act on, and as the render a function closes over, from which it reads the
  state variables (\<open>c\<close> in the definitions below).
\<close>

record view =
  data :: "MonitoredNumber list"
  loading :: bool
  error :: "jsstring option"
  page :: int
  pageSize :: int
  totalCount :: int
  totalPages :: int
  filters :: "(jsstring \<times> jsstring) list"
  search :: jsstring
  requesterFilter :: jsstring
  statusFilter :: MonitoringStatusFilter
  dataCache :: "int \<rightharpoonup> MonitoredNumber list"
  dataCacheRef :: "int \<rightharpoonup> MonitoredNumber list"
  selectedNumber :: "MonitoredNumber option"
  periodicityDraft :: Periodicity
  updatingPeriodicity :: bool
  deletingVatNumber :: bool
  periodicityToast :: "jsstring option"
  checksHistory :: "jsstring list"
  checksTotal :: int
  checksTotalPages :: int
  checksPage :: int

definition PAGE_SIZE_OPTIONS :: "int list" where
  "PAGE_SIZE_OPTIONS = [15, 25, 50, 100]"

text \<open>\<^verbatim>\<open>filters[key] || ''\<close> and \<^verbatim>\<open>{ ...prev, [key]: value }\<close> on an object with string keys.\<close>

definition filterValue :: "(jsstring \<times> jsstring) list \<Rightarrow> jsstring \<Rightarrow> jsstring" where
  "filterValue fs k = (case map_of fs k of None \<Rightarrow> [] | Some v \<Rightarrow> v)"

fun putKey :: "'k \<Rightarrow> 'v \<Rightarrow> ('k \<times> 'v) list \<Rightarrow> ('k \<times> 'v) list" where
  "putKey k v [] = [(k, v)]"
| "putKey k v ((k', v') # fs) =
     (if k' = k then (k, v) # fs else (k', v') # putKey k v fs)"

section \<open>The page fetch\<close>

definition enrichWithLastCheckResult :: "env \<Rightarrow> MonitoredNumber list \<Rightarrow> MonitoredNumber list" where
  "enrichWithLastCheckResult w items =
     (if items = [] then items
      else
        let uuids = filter (\<lambda>u. u \<noteq> []) (map uuid items) in
        if uuids = [] then items
        else
          (case latest_checks w uuids of
             Inl e \<Rightarrow> items
           | Inr checks \<Rightarrow>
               map (\<lambda>item.
                 let latest = find (\<lambda>row. uuid item \<noteq> [] \<and> vat_number_uuid row = Some (uuid item)) checks;
                     latestName = find (\<lambda>row. uuid item \<noteq> [] \<and> vat_number_uuid row = Some (uuid item)
                                    \<and> (case name row of Some n \<Rightarrow> trim n \<noteq> [] | None \<Rightarrow> False)) checks
                 in item\<lparr>last_check_valid := (case latest of Some row \<Rightarrow> valid row | None \<Rightarrow> None),
                         last_check_checked_at :=
                           (case latest of Some row \<Rightarrow> vat_check_date row | None \<Rightarrow> None),
                         last_check_name :=
                           (case latestName of Some row \<Rightarrow> map_option trim (name row) | None \<Rightarrow> None)\<rparr>)
                 items))"

text \<open>
  The search and entity-name block of \<^verbatim>\<open>fetchRawData\<close>: \<open>None\<close> is
  \<^verbatim>\<open>constrainedUuids === null\<close>.
\<close>

definition resolveConstraint :: "env \<Rightarrow> view \<Rightarrow> jsstring list option" where
  "resolveConstraint w c =
     (let searchTerm = sanitizeSearchTerm (search c);
          constrainedUuids =
            (if searchTerm \<noteq> [] then Some (resolveVatUuidsForSearchTerm w searchTerm) else None);
          entityFilterValue = trim (filterValue (filters c) (js ''entity_name''))
      in if entityFilterValue \<noteq> [] then
           (let entityTerm = sanitizeSearchTerm entityFilterValue;
                entityUuids = resolveVatUuidsForEntityFilter w entityTerm
            in Some (case constrainedUuids of
                       None \<Rightarrow> entityUuids
                     | Some cs \<Rightarrow> intersectUuids cs entityUuids))
         else constrainedUuids)"

text \<open>
  \<^verbatim>\<open>fetchRawData\<close> either throws or returns \<^verbatim>\<open>{ data, count }\<close>; the second component lists
  the paginated Record Store queries it has sent (none or one).
\<close>

type_synonym page_result = "MonitoredNumber list \<times> int"

definition fetchRawData ::
    "env \<Rightarrow> view \<Rightarrow> int \<Rightarrow> (js_error + page_result) \<times> store_request list" where
  "fetchRawData w c pageNum =
     (let from = (pageNum - 1) * pageSize c;
          to = from + pageSize c - 1
      in case applyDirectColumnFilters (lenient_dates w) [] (filters c) of
           Inl e \<Rightarrow> (Inl e, [])
         | Inr query \<Rightarrow>
             (case requesterConstraint (requesterFilter c) of
                None \<Rightarrow> (Inr ([], 0), [])
              | Some requesterPreds \<Rightarrow>
                  (let query' = query @ requesterPreds @ statusPredicates (statusFilter c);
                       constrainedUuids = resolveConstraint w c
                   in if constrainedUuids = Some [] then (Inr ([], 0), [])
                      else
                        (let request =
                               \<lparr>preds = query' @
                                  (case constrainedUuids of
                                     None \<Rightarrow> []
                                   | Some us \<Rightarrow> [FIn (js ''uuid'') us]),
                                range_from = from, range_to = to\<rparr>
                         in case select_page w request of
                              Inl e \<Rightarrow> (Inl e, [request])
                            | Inr (rows, count) \<Rightarrow>
                                (Inr (enrichWithLastCheckResult w rows,
                                      (case count of None \<Rightarrow> 0 | Some n \<Rightarrow> n)),
                                 [request])))))"

section \<open>Page Cache and prefetcher\<close>

definition updateCache :: "int \<Rightarrow> MonitoredNumber list \<Rightarrow> view \<Rightarrow> view" where
  "updateCache p pageData s =
     s\<lparr>dataCacheRef := (dataCacheRef s)(p \<mapsto> pageData),
       dataCache := (dataCache s)(p \<mapsto> pageData)\<rparr>"

definition clearCache :: "view \<Rightarrow> view" where
  "clearCache s = s\<lparr>dataCacheRef := Map.empty, dataCache := Map.empty\<rparr>"

text \<open>
  \<^verbatim>\<open>Math.ceil(n / d)\<close> on integers, for a positive \<open>d\<close>; the page size is one of
  \<open>PAGE_SIZE_OPTIONS\<close>.
\<close>

definition ceilDiv :: "int \<Rightarrow> int \<Rightarrow> int" where
  "ceilDiv n d = - ((- n) div d)"

text \<open>\<^verbatim>\<open>Math.ceil(count / pageSize) || 1\<close>.\<close>

definition computedTotalPages :: "int \<Rightarrow> int \<Rightarrow> int" where
  "computedTotalPages count ps = (if ceilDiv count ps = 0 then 1 else ceilDiv count ps)"

text \<open>The first loop of \<^verbatim>\<open>prefetchNeighbors\<close>.\<close>

definition neighbors :: "int \<Rightarrow> int \<Rightarrow> int list" where
  "neighbors currentPage maxPage =
     concat (map (\<lambda>i. (if currentPage - i > 0 then [currentPage - i] else [])
                      @ (if currentPage + i \<le> maxPage then [currentPage + i] else []))
                 [1, 2])"

text \<open>\<^verbatim>\<open>const maxPage = total || totalPages\<close>.\<close>

definition maxPageOf :: "view \<Rightarrow> int option \<Rightarrow> int" where
  "maxPageOf c total' =
     (case total' of
        Some t \<Rightarrow> if t \<noteq> 0 then t else totalPages c
      | None \<Rightarrow> totalPages c)"

text \<open>
  The second loop of \<^verbatim>\<open>prefetchNeighbors\<close>, run to its end against one world with nothing
  else happening in between. It returns the state and, for every page it has called
  \<^verbatim>\<open>fetchRawData\<close> for, the page and the Record Store queries that call has sent.
\<close>

fun prefetchLoop ::
    "env \<Rightarrow> view \<Rightarrow> int list \<Rightarrow> view \<Rightarrow> view \<times> (int \<times> store_request list) list" where
  "prefetchLoop w c [] s = (s, [])"
| "prefetchLoop w c (p # ps) s =
     (if dataCacheRef s p \<noteq> None then prefetchLoop w c ps s
      else
        let s' = (case fst (fetchRawData w c p) of
                    Inr (neighborData, count) \<Rightarrow> updateCache p neighborData s
                  | Inl e \<Rightarrow> s);
            r = prefetchLoop w c ps s'
        in (fst r, (p, snd (fetchRawData w c p)) # snd r))"

definition prefetchNeighborsRun ::
    "env \<Rightarrow> view \<Rightarrow> int \<Rightarrow> int option \<Rightarrow> view
      \<Rightarrow> view \<times> (int \<times> store_request list) list" where
  "prefetchNeighborsRun w c currentPage total' s =
     prefetchLoop w c (neighbors currentPage (maxPageOf c total')) s"

fun errorMessage :: "js_error \<Rightarrow> jsstring" where
  "errorMessage RangeError = js ''Invalid time value''"
| "errorMessage (BackendError m) = m"

text \<open>
  \<^verbatim>\<open>loadPageData\<close> after its \<^verbatim>\<open>await fetchRawData(targetPage)\<close>, up to the call of
  \<^verbatim>\<open>prefetchNeighbors\<close>: the \<^verbatim>\<open>try\<close> body on a result, the \<^verbatim>\<open>catch\<close> on an error.
\<close>

definition loadPageDataSettled :: "view \<Rightarrow> int \<Rightarrow> js_error + page_result \<Rightarrow> view \<Rightarrow> view" where
  "loadPageDataSettled c targetPage outcome s =
     (case outcome of
        Inr (pageData, count) \<Rightarrow>
          updateCache targetPage pageData
            (s\<lparr>data := pageData, totalCount := count,
               totalPages := computedTotalPages count (pageSize c)\<rparr>)
      | Inl e \<Rightarrow> s\<lparr>error := Some (errorMessage e)\<rparr>)"

text \<open>
  \<^verbatim>\<open>loadPageData\<close> run to the end of its prefetch against one world, with nothing else
  happening in between: the final state and the prefetches made, or \<open>None\<close> when the load
  of the page fails.
\<close>

definition loadPageDataRun ::
    "env \<Rightarrow> view \<Rightarrow> int \<Rightarrow> bool \<Rightarrow> view
      \<Rightarrow> (view \<times> (int \<times> store_request list) list) option" where
  "loadPageDataRun w c targetPage forceRefresh s =
     (case (if forceRefresh then None else dataCacheRef s targetPage) of
        Some rows \<Rightarrow>
          Some (prefetchNeighborsRun w c targetPage None (s\<lparr>data := rows, loading := False\<rparr>))
      | None \<Rightarrow>
          (case fst (fetchRawData w c targetPage) of
             Inr (pageData, count) \<Rightarrow>
               (let r = prefetchNeighborsRun w c targetPage
                          (Some (computedTotalPages count (pageSize c)))
                          (loadPageDataSettled c targetPage (Inr (pageData, count))
                             (s\<lparr>loading := True, error := None\<rparr>))
                in Some ((fst r)\<lparr>loading := False\<rparr>, snd r))
           | Inl e \<Rightarrow> None))"

section \<open>Mutation Coordinator\<close>








text \<open>
  The update that \<^verbatim>\<open>softDeleteVatNumber\<close> sends to the store, and the function up to its
  \<^verbatim>\<open>await\<close>: \<open>confirmed\<close> is the answer of \<^verbatim>\<open>window.confirm\<close>, \<open>now\<close> the text of
  \<^verbatim>\<open>new Date().toISOString()\<close>.
\<close>

record delete_request =
  target_uuid :: jsstring
  new_reference :: "(jsstring \<times> jsstring option) list"
  new_periodicity :: jsstring

definition softDeleteVatNumberBegin ::
    "view \<Rightarrow> bool \<Rightarrow> jsstring \<Rightarrow> view \<Rightarrow> view \<times> delete_request option" where
  "softDeleteVatNumberBegin c confirmed now s =
     (case selectedNumber c of
        None \<Rightarrow> (s, None)
      | Some target \<Rightarrow>
          if deletingVatNumber c then (s, None)
          else if \<not> confirmed then (s, None)
          else
            (let existingReference =
                   (case reference target of Object members \<Rightarrow> members | NotAnObject \<Rightarrow> []);
                 nextReference =
                   putKey (js ''deleted_at'') (Some now)
                     (putKey (js ''status'') (Some (js ''deleted'')) existingReference)
             in (s\<lparr>deletingVatNumber := True, error := None\<rparr>,
                 Some \<lparr>target_uuid = uuid target, new_reference = nextReference,
                       new_periodicity = js ''inactive''\<rparr>)))"


section \<open>The view as an event-driven system\<close>

text \<open>
  The query engine runs on the UI event loop: handlers and effects run to their first
  \<^verbatim>\<open>await\<close>, and each awaited \<^verbatim>\<open>fetchRawData\<close> settles later, in any order, as an event of
  its own. A pending request remembers the render its function closes over. \<open>Load c p\<close> is
  a \<^verbatim>\<open>loadPageData\<close> waiting for page \<open>p\<close>; \<open>Prefetch c p ps\<close> is a \<^verbatim>\<open>prefetchNeighbors\<close>
  waiting for page \<open>p\<close> with the neighbours \<open>ps\<close> still to visit. \<open>timer\<close> is the pending
  500 ms timeout of the filter effect, with the render its callback closes over.
\<close>

datatype request = Load view int | Prefetch view int "int list"

record system =
  current :: view
  timer :: "view option"
  pending :: "request list"

datatype event =
    ChangeSearch jsstring
  | ChangeFilter jsstring jsstring
  | ChangeRequester jsstring
  | ChangeStatus MonitoringStatusFilter
  | DebounceElapsed
  | ChangePageSize int
  | PrevPage
  | NextPage
  | SubmitPageInput "int option"
  | Settles nat env

definition initialView :: view where
  "initialView =
     \<lparr>data = [], loading = True, error = None, page = 1, pageSize = 15, totalCount = 0,
      totalPages = 1, filters = [], search = [], requesterFilter = js ''__all__'',
      statusFilter = StatusAll, dataCache = Map.empty, dataCacheRef = Map.empty,
      selectedNumber = None, periodicityDraft = Daily, updatingPeriodicity = False,
      deletingVatNumber = False, periodicityToast = None, checksHistory = [],
      checksTotal = 0, checksTotalPages = 1, checksPage = 1\<rparr>"

text \<open>
  \<^verbatim>\<open>prefetchNeighbors\<close> up to its first \<^verbatim>\<open>await\<close>: the neighbours are computed, the cached
  ones at the front are skipped, and the first uncached one is requested.
\<close>

definition prefetchContinue :: "view \<Rightarrow> int list \<Rightarrow> view \<Rightarrow> request list" where
  "prefetchContinue c ps s =
     (case dropWhile (\<lambda>p. dataCacheRef s p \<noteq> None) ps of
        [] \<Rightarrow> []
      | p # rest \<Rightarrow> [Prefetch c p rest])"

definition prefetchNeighbors :: "view \<Rightarrow> int \<Rightarrow> int option \<Rightarrow> view \<Rightarrow> request list" where
  "prefetchNeighbors c currentPage total' s =
     prefetchContinue c (neighbors currentPage (maxPageOf c total')) s"

text \<open>\<^verbatim>\<open>loadPageData\<close> up to its \<^verbatim>\<open>await\<close>.\<close>

definition loadPageData :: "view \<Rightarrow> int \<Rightarrow> bool \<Rightarrow> system \<Rightarrow> system" where
  "loadPageData c targetPage forceRefresh sys =
     (let s = current sys in
      case (if forceRefresh then None else dataCacheRef s targetPage) of
        Some rows \<Rightarrow>
          (let s' = s\<lparr>data := rows, loading := False\<rparr>
           in sys\<lparr>current := s',
                  pending := pending sys @ prefetchNeighbors c targetPage None s'\<rparr>)
      | None \<Rightarrow>
          sys\<lparr>current := s\<lparr>loading := True, error := None\<rparr>,
              pending := pending sys @ [Load c targetPage]\<rparr>)"

text \<open>
  The effect on \<^verbatim>\<open>[page]\<close>: after a render in which the page number differs from the one
  of the render before, \<^verbatim>\<open>loadPageData(page)\<close> of the new render runs.
\<close>

definition pageEffect :: "int \<Rightarrow> system \<Rightarrow> system" where
  "pageEffect previous sys =
     (if page (current sys) \<noteq> previous
      then loadPageData (current sys) (page (current sys)) False sys
      else sys)"

definition setPage :: "int \<Rightarrow> system \<Rightarrow> system" where
  "setPage p sys =
     pageEffect (page (current sys)) (sys\<lparr>current := (current sys)\<lparr>page := p\<rparr>\<rparr>)"

text \<open>
  The effect on \<^verbatim>\<open>[search, filters, requesterFilter, statusFilter]\<close> after the first render:
  the timeout of the render before is cleared and a new one is set.
\<close>

definition filterEffect :: "system \<Rightarrow> system" where
  "filterEffect sys = sys\<lparr>timer := Some (current sys)\<rparr>"

text \<open>The callback of the timeout: \<^verbatim>\<open>setPage(1); clearCache(); loadPageData(1, true)\<close>.\<close>

definition debounceElapsed :: "view \<Rightarrow> system \<Rightarrow> system" where
  "debounceElapsed c sys =
     (let previous = page (current sys);
          s1 = clearCache ((current sys)\<lparr>page := 1\<rparr>)
      in pageEffect previous (loadPageData c 1 True (sys\<lparr>current := s1, timer := None\<rparr>)))"

text \<open>The effect on \<^verbatim>\<open>[pageSize]\<close> after the first render.\<close>

definition pageSizeEffect :: "system \<Rightarrow> system" where
  "pageSizeEffect sys =
     (let c = current sys;
          sys1 = sys\<lparr>current := clearCache c\<rparr>
      in if page c \<noteq> 1 then setPage 1 sys1
         else loadPageData c 1 True sys1)"

text \<open>A pending request settles against the world as it is at that moment.\<close>

definition settle :: "env \<Rightarrow> request \<Rightarrow> system \<Rightarrow> system" where
  "settle w r sys =
     (let s = current sys in
      case r of
        Load c targetPage \<Rightarrow>
          (let outcome = fst (fetchRawData w c targetPage);
               s1 = loadPageDataSettled c targetPage outcome s;
               started =
                 (case outcome of
                    Inr (pageData, count) \<Rightarrow>
                      prefetchNeighbors c targetPage
                        (Some (computedTotalPages count (pageSize c))) s1
                  | Inl e \<Rightarrow> [])
           in sys\<lparr>current := s1\<lparr>loading := False\<rparr>, pending := pending sys @ started\<rparr>)
      | Prefetch c p ps \<Rightarrow>
          (let s1 = (case fst (fetchRawData w c p) of
                       Inr (neighborData, count) \<Rightarrow> updateCache p neighborData s
                     | Inl e \<Rightarrow> s)
           in sys\<lparr>current := s1, pending := pending sys @ prefetchContinue c ps s1\<rparr>))"

fun step :: "event \<Rightarrow> system \<Rightarrow> system" where
  "step (ChangeSearch v) sys =
     (if v = search (current sys) then sys
      else filterEffect (sys\<lparr>current := (current sys)\<lparr>search := v\<rparr>\<rparr>))"
| "step (ChangeFilter k v) sys =
     filterEffect (sys\<lparr>current := (current sys)\<lparr>filters := putKey k v (filters (current sys))\<rparr>\<rparr>)"
| "step (ChangeRequester v) sys =
     (if v = requesterFilter (current sys) then sys
      else filterEffect (sys\<lparr>current := (current sys)\<lparr>requesterFilter := v\<rparr>\<rparr>))"
| "step (ChangeStatus v) sys =
     (if v = statusFilter (current sys) then sys
      else filterEffect (sys\<lparr>current := (current sys)\<lparr>statusFilter := v\<rparr>\<rparr>))"
| "step DebounceElapsed sys =
     (case timer sys of None \<Rightarrow> sys | Some c \<Rightarrow> debounceElapsed c sys)"
| "step (ChangePageSize n) sys =
     (if n = pageSize (current sys) then sys
      else pageSizeEffect (sys\<lparr>current := (current sys)\<lparr>pageSize := n\<rparr>\<rparr>))"
| "step PrevPage sys = setPage (max 1 (page (current sys) - 1)) sys"
| "step NextPage sys =
     setPage (min (totalPages (current sys)) (page (current sys) + 1)) sys"
| "step (SubmitPageInput parsed) sys =
     (let newPage = (case parsed of None \<Rightarrow> 1 | Some n \<Rightarrow> if n < 1 then 1 else n);
          newPage' = (if newPage > totalPages (current sys)
                      then totalPages (current sys) else newPage)
      in setPage newPage' sys)"
| "step (Settles i w) sys =
     (if i < length (pending sys)
      then settle w (pending sys ! i)
             (sys\<lparr>pending := take i (pending sys) @ drop (Suc i) (pending sys)\<rparr>)
      else sys)"

definition run :: "event list \<Rightarrow> system \<Rightarrow> system" where
  "run evs sys = fold step evs sys"

text \<open>The system after the first render and its effects: page 1 is being loaded.\<close>

definition mounted :: system where
  "mounted = loadPageData initialView 1 False
               \<lparr>current = initialView, timer = None, pending = []\<rparr>"


text \<open>
  The oldest pending request settles, \<open>n\<close> times over, against one world and with no
  other event in between.
\<close>

fun settleAll :: "env \<Rightarrow> nat \<Rightarrow> system \<Rightarrow> system" where
  "settleAll w 0 sys = sys"
| "settleAll w (Suc n) sys = settleAll w n (step (Settles 0 w) sys)"
section \<open>Predicates as the Record Store evaluates them\<close>

text \<open>
  The Record Store is a PostgREST interface to a PostgreSQL table, so a predicate is an
  SQL condition, evaluated in three-valued logic: a comparison with a missing (NULL)
  value is unknown (\<open>None\<close>), the negation of unknown is unknown, and a row is returned only
  when every predicate of the query is true. \<open>reference->>key\<close> is the text of a member
  of the reference, NULL when the reference is not an object, has no such member, or the
  member is \<^verbatim>\<open>null\<close>. The matcher of \<^verbatim>\<open>ilike\<close> patterns is the store's and is a parameter.
\<close>

definition referenceText :: "jsonb \<Rightarrow> jsstring \<Rightarrow> jsstring option" where
  "referenceText r k =
     (case r of
        NotAnObject \<Rightarrow> None
      | Object members \<Rightarrow> (case map_of members k of Some (Some v) \<Rightarrow> Some v | _ \<Rightarrow> None))"

definition column :: "MonitoredNumber \<Rightarrow> jsstring \<Rightarrow> jsvalue option" where
  "column row c =
     (if take 12 c = js ''reference->>'' then
        map_option Str (referenceText (reference row) (drop 12 c))
      else if c = js ''uuid'' then Some (Str (uuid row))
      else if c = js ''country_code'' then Some (Str (country_code row))
      else if c = js ''vat_number'' then Some (Str (vat_number row))
      else if c = js ''country_code_requester'' then map_option Str (country_code_requester row)
      else if c = js ''vat_number_requester'' then map_option Str (vat_number_requester row)
      else if c = js ''periodicity'' then Some (Str (periodicity row))
      else if c = js ''number_of_checks'' then
        map_option (\<lambda>n. Num (Finite (of_int n))) (number_of_checks row)
      else if c = js ''user_uuid'' then Some (Str (user_uuid row))
      else if c = js ''last_check_date'' then map_option Str (last_check_date row)
      else if c = js ''created_at'' then Some (Str (created_at row))
      else None)"

fun textLess :: "jsstring \<Rightarrow> jsstring \<Rightarrow> bool" where
  "textLess [] [] = False"
| "textLess [] (y # ys) = True"
| "textLess (x # xs) [] = False"
| "textLess (x # xs) (y # ys) = (x < y \<or> (x = y \<and> textLess xs ys))"

fun valueLess :: "jsvalue \<Rightarrow> jsvalue \<Rightarrow> bool" where
  "valueLess (Num (Finite a)) (Num (Finite b)) = (a < b)"
| "valueLess (Num NegInfinity) (Num (Finite b)) = True"
| "valueLess (Num NegInfinity) (Num PosInfinity) = True"
| "valueLess (Num (Finite a)) (Num PosInfinity) = True"
| "valueLess (Str a) (Str b) = textLess a b"
| "valueLess x y = False"

fun sqlOr :: "bool option \<Rightarrow> bool option \<Rightarrow> bool option" where
  "sqlOr (Some True) y = Some True"
| "sqlOr x (Some True) = Some True"
| "sqlOr (Some False) (Some False) = Some False"
| "sqlOr x y = None"

fun holds :: "(jsstring \<Rightarrow> jsstring \<Rightarrow> bool) \<Rightarrow> MonitoredNumber \<Rightarrow> pfilter \<Rightarrow> bool option" where
  "holds m row (FEq c v) = map_option (\<lambda>x. x = v) (column row c)"
| "holds m row (FNeq c v) = map_option (\<lambda>x. x \<noteq> v) (column row c)"
| "holds m row (FGt c v) = map_option (\<lambda>x. valueLess v x) (column row c)"
| "holds m row (FGte c v) = map_option (\<lambda>x. \<not> valueLess x v) (column row c)"
| "holds m row (FLt c v) = map_option (\<lambda>x. valueLess x v) (column row c)"
| "holds m row (FIlike c p) =
     (case column row c of Some (Str t) \<Rightarrow> Some (m p t) | _ \<Rightarrow> None)"
| "holds m row (FNot c v) = map_option Not (map_option (\<lambda>x. x = v) (column row c))"
| "holds m row (FIsNull c) = Some (column row c = None)"
| "holds m row (FOr fs) = foldr sqlOr (map (holds m row) fs) (Some False)"
| "holds m row (FIn c vs) = map_option (\<lambda>x. x \<in> Str ` set vs) (column row c)"

definition selects :: "(jsstring \<Rightarrow> jsstring \<Rightarrow> bool) \<Rightarrow> pfilter list \<Rightarrow> MonitoredNumber \<Rightarrow> bool" where
  "selects m fs row = list_all (\<lambda>f. holds m row f = Some True) fs"

section \<open>What the specification says, for comparison with the code\<close>

text \<open>
  The status buckets in the words of the specification: \<^emph>\<open>deleted\<close> is reference status
  flag equals "deleted"; \<^emph>\<open>inactive\<close> is periodicity inactive and not deleted;
  \<^emph>\<open>pending\<close> is periodicity not inactive, not deleted, and check count null or zero;
  \<^emph>\<open>active\<close> is periodicity not inactive, not deleted, and check count above zero;
  \<^emph>\<open>all\<close> is no constraint. A row is deleted when its flag is "deleted", so a row without
  a flag is not deleted.
\<close>

definition specDeleted :: "MonitoredNumber \<Rightarrow> bool" where
  "specDeleted row = (referenceText (reference row) (js ''status'') = Some (js ''deleted''))"

fun specStatusSelects :: "MonitoringStatusFilter \<Rightarrow> MonitoredNumber \<Rightarrow> bool" where
  "specStatusSelects StatusDeleted row = specDeleted row"
| "specStatusSelects StatusInactive row =
     (periodicity row = js ''inactive'' \<and> \<not> specDeleted row)"
| "specStatusSelects StatusPending row =
     (periodicity row \<noteq> js ''inactive'' \<and> \<not> specDeleted row
      \<and> (number_of_checks row = None \<or> number_of_checks row = Some 0))"
| "specStatusSelects StatusActive row =
     (periodicity row \<noteq> js ''inactive'' \<and> \<not> specDeleted row
      \<and> (case number_of_checks row of Some n \<Rightarrow> 0 < n | None \<Rightarrow> False))"
| "specStatusSelects StatusAll row = True"

text \<open>
  The identifier constraint of a query in the words of the specification: the set the
  sanitized search term resolves to, the set the sanitized entity-name filter resolves
  to, their intersection when both are non-empty, and no constraint when neither is.
\<close>

definition specResolvedConstraint :: "env \<Rightarrow> view \<Rightarrow> jsstring list option" where
  "specResolvedConstraint w c =
     (let searchTerm = sanitizeSearchTerm (search c);
          entityTerm = sanitizeSearchTerm (filterValue (filters c) (js ''entity_name''))
      in if searchTerm \<noteq> [] \<and> entityTerm \<noteq> [] then
           Some (intersectUuids (resolveVatUuidsForSearchTerm w searchTerm)
                   (resolveVatUuidsForEntityFilter w entityTerm))
         else if searchTerm \<noteq> [] then Some (resolveVatUuidsForSearchTerm w searchTerm)
         else if entityTerm \<noteq> [] then Some (resolveVatUuidsForEntityFilter w entityTerm)
         else None)"




text \<open>
  The changes of the free-text search, of a column filter, of the requester selector and
  of the status selector.
\<close>

fun isFilterChange :: "event \<Rightarrow> bool" where
  "isFilterChange (ChangeSearch v) = True"
| "isFilterChange (ChangeFilter k v) = True"
| "isFilterChange (ChangeRequester v) = True"
| "isFilterChange (ChangeStatus v) = True"
| "isFilterChange e = False"

section \<open>Worlds, states and rows used in the examples\<close>

text \<open>A world in which nothing matches and the store is empty.\<close>

definition silentWorld :: env where
  "silentWorld =
     \<lparr>lenient_dates = True, vat_numbers_uuids = (\<lambda>q. Inr []), checks_uuids = (\<lambda>q. Inr []),
      select_page = (\<lambda>r. Inr ([], Some 0)), latest_checks = (\<lambda>us. Inr [])\<rparr>"

text \<open>
  A world whose entry collection has 2001 rows matching every term, with the identifiers
  \<^verbatim>\<open>a\<close>, \<^verbatim>\<open>aa\<close>, \<^verbatim>\<open>aaa\<close>, ... (97 is the code unit of \<^verbatim>\<open>a\<close>).
\<close>

definition manyUuids :: "nat \<Rightarrow> jsstring option list" where
  "manyUuids n = map (\<lambda>i. Some (replicate (Suc i) (97::nat))) [0..<n]"

definition crowdedWorld :: env where
  "crowdedWorld =
     \<lparr>lenient_dates = True,
      vat_numbers_uuids = (\<lambda>q. Inr (manyUuids 2001)),
      checks_uuids = (\<lambda>q. Inr []),
      select_page = (\<lambda>r. Inr ([], Some 0)),
      latest_checks = (\<lambda>us. Inr [])\<rparr>"

text \<open>The initial view with \<^verbatim>\<open>2024-13-01\<close> typed into the filter of the Added Date column.\<close>

definition badDateView :: view where
  "badDateView = initialView\<lparr>filters := [(js ''created_at'', js ''2024-13-01'')]\<rparr>"

text \<open>An inactive entry whose reference has a name and no status member.\<close>

definition unflaggedRow :: MonitoredNumber where
  "unflaggedRow =
     \<lparr>uuid = js ''u1'', country_code = js ''FR'', vat_number = js ''12345678901'',
      country_code_requester = None, vat_number_requester = None,
      periodicity = js ''inactive'', number_of_checks = Some 3, user_uuid = js ''owner'',
      last_check_date = None, last_check_valid = None, last_check_checked_at = None,
      last_check_name = None, created_at = js ''2024-01-01T00:00:00.000Z'',
      reference = Object [(js ''name'', Some (js ''ACME''))]\<rparr>"


text \<open>
  A view on page 3 of 3, and a world whose store by now holds five matching rows and
  answers a window behind the last row with no rows and the count.
\<close>

definition thirdPageView :: view where
  "thirdPageView = initialView\<lparr>loading := False, page := 3, totalCount := 40, totalPages := 3\<rparr>"





text \<open>
  A soft-deleted entry, and a world whose store holds it and \<open>unflaggedRow\<close>: a query for
  the deleted entries is answered with the first, any other query with the second.
\<close>

definition deletedRow :: MonitoredNumber where
  "deletedRow =
     unflaggedRow\<lparr>uuid := js ''u2'',
       reference := Object [(js ''status'', Some (js ''deleted''))]\<rparr>"

definition staleWorld :: env where
  "staleWorld =
     \<lparr>lenient_dates = True, vat_numbers_uuids = (\<lambda>q. Inr []), checks_uuids = (\<lambda>q. Inr []),
      select_page = (\<lambda>r. if preds r = statusPredicates StatusDeleted
                           then Inr ([deletedRow], Some 1)
                           else Inr ([unflaggedRow], Some 1)),
      latest_checks = (\<lambda>us. Inr [])\<rparr>"

text \<open>
  The user picks the status \<^emph>\<open>deleted\<close> while the first load of page 1 is still on its
  way; the timeout fires; the new load is answered first, the first load after it.
\<close>

definition staleTrace :: "event list" where
  "staleTrace = [ChangeStatus StatusDeleted, DebounceElapsed, Settles 1 staleWorld, Settles 0 staleWorld]"

text \<open>The view with the status \<^emph>\<open>deleted\<close> picked.\<close>

definition deletedView :: view where
  "deletedView = initialView\<lparr>statusFilter := StatusDeleted\<rparr>"

text \<open>A system at rest on page 3, with that page in the cache.\<close>

definition browsing :: system where
  "browsing =
     \<lparr>current = thirdPageView\<lparr>data := [unflaggedRow],
                  dataCache := [3 \<mapsto> [unflaggedRow]], dataCacheRef := [3 \<mapsto> [unflaggedRow]]\<rparr>,
      timer = None, pending = []\<rparr>"

section \<open>Strings: trimming and sanitizing\<close>


lemma dropWhile_hd_self: "xs = [] \<or> \<not> P (hd xs) \<Longrightarrow> dropWhile P xs = xs"
  by (cases xs) auto

lemma trim_unchanged:
  assumes "s = [] \<or> (\<not> isWhiteSpace (hd s) \<and> \<not> isWhiteSpace (last s))"
  shows "trim s = s"
proof (cases "s = []")
  case True
  then show ?thesis by (simp add: trim_def)
next
  case False
  with assms have h: "\<not> isWhiteSpace (hd s)" and l: "\<not> isWhiteSpace (last s)" by auto
  from False h have a: "dropWhile isWhiteSpace s = s" by (cases s) auto
  from False l have b: "dropWhile isWhiteSpace (rev s) = rev s"
    by (cases "rev s") (auto simp: last_rev hd_rev dest: arg_cong[where f=hd])
  show ?thesis by (simp add: trim_def a b)
qed

lemma trim_ends:
  "trim s = [] \<or> (\<not> isWhiteSpace (hd (trim s)) \<and> \<not> isWhiteSpace (last (trim s)))"
proof -
  let ?a = "dropWhile isWhiteSpace s"
  let ?b = "dropWhile isWhiteSpace (rev ?a)"
  have t: "trim s = rev ?b" by (simp add: trim_def)
  show ?thesis
  proof (cases "?b = []")
    case True
    then show ?thesis by (simp add: t)
  next
    case False
    then have hb: "\<not> isWhiteSpace (hd ?b)" by (metis hd_dropWhile)
    from False have ra: "rev ?a \<noteq> []" by (metis dropWhile.simps(1))
    then have an: "?a \<noteq> []" by simp
    then have ha: "\<not> isWhiteSpace (hd ?a)" by (metis hd_dropWhile)
    obtain pre where pre: "rev ?a = pre @ ?b"
      by (metis takeWhile_dropWhile_id)
    then have "?a = rev ?b @ rev pre" by (metis rev_append rev_rev_ident)
    with False have "hd (rev ?b) = hd ?a" by (metis hd_append2 rev_is_Nil_conv)
    with ha hb False show ?thesis by (simp add: t last_rev)
  qed
qed

lemma trim_idem: "trim (trim s) = trim s"
  using trim_ends[of s] by (rule trim_unchanged)

lemma sanitize_trim: "sanitizeSearchTerm (trim v) = sanitizeSearchTerm v"
  by (simp add: sanitizeSearchTerm_def trim_idem)

lemma sanitize_nonempty_trim: "sanitizeSearchTerm v \<noteq> [] \<Longrightarrow> trim v \<noteq> []"
  by (auto simp: sanitizeSearchTerm_def)

lemma toUniqueUuids_Nil: "toUniqueUuids [] = []"
  by (simp add: toUniqueUuids_def)

lemma resolveEntity_empty_term: "resolveVatUuidsForEntityFilter w [] = []"
  by (simp add: resolveVatUuidsForEntityFilter_def fetchMatchingVatUuidsFromVatNumbers_def
        fetchMatchingVatUuidsFromChecks_def toUniqueUuids_Nil)

lemma intersectUuids_Nil_right: "intersectUuids xs [] = []"
  by (simp add: intersectUuids_def)


section \<open>The event system and the sequential run of a load\<close>

text \<open>
  Left alone, the event system carries a load and its prefetch to the state that
  \<^const>\<open>loadPageDataRun\<close> computes: a prefetch takes at most four requests, the load one.
\<close>

lemma settle_nothing: "pending sys = [] \<Longrightarrow> step (Settles 0 w) sys = sys"
  by simp

lemma settleAll_nothing: "pending sys = [] \<Longrightarrow> settleAll w n sys = sys"
  by (induction n) simp_all

lemma prefetchContinue_cached:
  "dataCacheRef s p \<noteq> None \<Longrightarrow> prefetchContinue c (p # ps) s = prefetchContinue c ps s"
  by (simp add: prefetchContinue_def)

lemma prefetchContinue_uncached:
  "dataCacheRef s p = None \<Longrightarrow> prefetchContinue c (p # ps) s = [Prefetch c p ps]"
  by (simp add: prefetchContinue_def)

lemma settle_first_prefetch:
  assumes "pending sys = [Prefetch c p ps]"
  shows "step (Settles 0 w) sys =
           (let s1 = (case fst (fetchRawData w c p) of
                        Inr (neighborData, count) \<Rightarrow> updateCache p neighborData (current sys)
                      | Inl e \<Rightarrow> current sys)
            in sys\<lparr>current := s1, pending := prefetchContinue c ps s1\<rparr>)"
  using assms by (simp add: settle_def Let_def)

lemma settleAll_prefetch:
  assumes "pending sys = prefetchContinue c ps (current sys)"
  shows "current (settleAll w (length ps) sys) = fst (prefetchLoop w c ps (current sys))
       \<and> pending (settleAll w (length ps) sys) = []
       \<and> timer (settleAll w (length ps) sys) = timer sys"
  using assms
proof (induction ps arbitrary: sys)
  case Nil
  then show ?case by (simp add: prefetchContinue_def)
next
  case (Cons p ps)
  show ?case
  proof (cases "dataCacheRef (current sys) p = None")
    case False
    with Cons.prems have pe: "pending sys = prefetchContinue c ps (current sys)"
      by (simp add: prefetchContinue_cached)
    note ih = Cons.IH[OF pe]
    have "settleAll w (length (p # ps)) sys = settleAll w (length ps) sys"
    proof -
      have "settleAll w (Suc n) sy = step (Settles 0 w) (settleAll w n sy)" for n sy
        by (induction n arbitrary: sy) simp_all
      then have "settleAll w (length (p # ps)) sys = step (Settles 0 w) (settleAll w (length ps) sys)"
        by simp
      also have "\<dots> = settleAll w (length ps) sys"
        using ih by (intro settle_nothing) simp
      finally show ?thesis .
    qed
    with ih False show ?thesis by simp
  next
    case True
    let ?s1 = "case fst (fetchRawData w c p) of
                 Inr (neighborData, count) \<Rightarrow> updateCache p neighborData (current sys)
               | Inl e \<Rightarrow> current sys"
    let ?sys1 = "sys\<lparr>current := ?s1, pending := prefetchContinue c ps ?s1\<rparr>"
    from Cons.prems True have pe: "pending sys = [Prefetch c p ps]"
      by (simp add: prefetchContinue_uncached)
    have st: "step (Settles 0 w) sys = ?sys1"
      using settle_first_prefetch[OF pe, of w] by (simp add: Let_def)
    have "pending ?sys1 = prefetchContinue c ps (current ?sys1)" by simp
    note ih = Cons.IH[OF this]
    have e: "settleAll w (length (p # ps)) sys = settleAll w (length ps) ?sys1"
      using st by (simp del: step.simps)
    have l: "fst (prefetchLoop w c (p # ps) (current sys)) = fst (prefetchLoop w c ps ?s1)"
      using True by (simp add: Let_def split: sum.splits prod.splits)
    show ?thesis
      unfolding e l using ih by simp
  qed
qed


lemma settleAll_add: "settleAll w (n + k) sys = settleAll w k (settleAll w n sys)"
  by (induction n arbitrary: sys) simp_all

lemma settleAll_prefetch_fuel:
  assumes "pending sys = prefetchContinue c ps (current sys)" and "length ps \<le> n"
  shows "current (settleAll w n sys) = fst (prefetchLoop w c ps (current sys))
       \<and> pending (settleAll w n sys) = []"
proof -
  from assms(2) obtain k where n: "n = length ps + k"
    using le_Suc_ex by blast
  show ?thesis
    unfolding n settleAll_add
    using settleAll_prefetch[OF assms(1), of w] by (simp add: settleAll_nothing)
qed

lemma length_neighbors: "length (neighbors p m) \<le> 4"
  by (simp add: neighbors_def)

lemma prefetchContinue_loading:
  "prefetchContinue c ps (s\<lparr>loading := b\<rparr>) = prefetchContinue c ps s"
  by (simp add: prefetchContinue_def)

lemma prefetchLoop_loading:
  "prefetchLoop w c ps (s\<lparr>loading := b\<rparr>)
     = ((fst (prefetchLoop w c ps s))\<lparr>loading := b\<rparr>, snd (prefetchLoop w c ps s))"
proof (induction ps arbitrary: s)
  case Nil
  show ?case by simp
next
  case (Cons p ps)
  have u: "updateCache p d (s\<lparr>loading := b\<rparr>) = (updateCache p d s)\<lparr>loading := b\<rparr>" for d
    by (simp add: updateCache_def)
  show ?case
    by (simp add: Let_def u Cons.IH split: sum.splits prod.splits)
qed

lemma machine_runs_loadPageData:
  assumes "pending sys = []"
    and "loadPageDataRun w c targetPage forceRefresh (current sys) = Some r"
  shows "current (settleAll w 5 (loadPageData c targetPage forceRefresh sys)) = fst r
       \<and> pending (settleAll w 5 (loadPageData c targetPage forceRefresh sys)) = []"
proof (cases "if forceRefresh then None else dataCacheRef (current sys) targetPage")
  case (Some rows)
  let ?s' = "(current sys)\<lparr>data := rows, loading := False\<rparr>"
  let ?ns = "neighbors targetPage (maxPageOf c None)"
  have l: "loadPageData c targetPage forceRefresh sys
             = sys\<lparr>current := ?s', pending := prefetchContinue c ?ns ?s'\<rparr>"
    using Some assms(1) by (simp add: loadPageData_def Let_def prefetchNeighbors_def)
  have r: "r = prefetchLoop w c ?ns ?s'"
    using Some assms(2) by (simp add: loadPageDataRun_def prefetchNeighborsRun_def)
  have "length ?ns \<le> 5" using length_neighbors[of targetPage "maxPageOf c None"] by simp
  from settleAll_prefetch_fuel[of "sys\<lparr>current := ?s', pending := prefetchContinue c ?ns ?s'\<rparr>"
         c ?ns 5 w, OF _ this]
  show ?thesis unfolding l r by simp
next
  case None
  from None assms(2) obtain pageData count where
    f: "fst (fetchRawData w c targetPage) = Inr (pageData, count)"
    by (auto simp add: loadPageDataRun_def split: sum.splits)
  let ?T = "computedTotalPages count (pageSize c)"
  let ?ns = "neighbors targetPage (maxPageOf c (Some ?T))"
  let ?s1 = "loadPageDataSettled c targetPage (Inr (pageData, count))
               ((current sys)\<lparr>loading := True, error := None\<rparr>)"
  let ?sys1 = "sys\<lparr>current := ?s1\<lparr>loading := False\<rparr>,
                   pending := prefetchContinue c ?ns (?s1\<lparr>loading := False\<rparr>)\<rparr>"
  have l: "loadPageData c targetPage forceRefresh sys
             = sys\<lparr>current := (current sys)\<lparr>loading := True, error := None\<rparr>,
                    pending := [Load c targetPage]\<rparr>"
    using None assms(1) by (simp add: loadPageData_def Let_def)
  have st: "step (Settles 0 w) (loadPageData c targetPage forceRefresh sys) = ?sys1"
    unfolding l by (simp add: settle_def Let_def f prefetchNeighbors_def prefetchContinue_loading)
  have e: "settleAll w 5 (loadPageData c targetPage forceRefresh sys) = settleAll w 4 ?sys1"
    using st by (simp del: step.simps add: numeral_eq_Suc)
  have r: "fst r = (fst (prefetchLoop w c ?ns ?s1))\<lparr>loading := False\<rparr>"
    using None assms(2) by (auto simp add: loadPageDataRun_def prefetchNeighborsRun_def f Let_def)
  from settleAll_prefetch_fuel[of ?sys1 c ?ns 4 w, OF _ length_neighbors]
  show ?thesis unfolding e r by (simp add: prefetchLoop_loading)
qed
section \<open>Search short-circuit\<close>

lemma spec_constraint_empty_is_code_constraint_empty:
  assumes "specResolvedConstraint w c = Some []"
  shows "resolveConstraint w c = Some []"
proof -
  let ?st = "sanitizeSearchTerm (search c)"
  let ?ev = "filterValue (filters c) (js ''entity_name'')"
  let ?et = "sanitizeSearchTerm ?ev"
  show ?thesis
  proof (cases "?et = []")
    case False
    then have tv: "trim ?ev \<noteq> []" by (rule sanitize_nonempty_trim)
    with assms False show ?thesis
      by (auto simp: specResolvedConstraint_def resolveConstraint_def Let_def sanitize_trim
            split: if_splits)
  next
    case True
    with assms have st: "?st \<noteq> []" and r: "resolveVatUuidsForSearchTerm w ?st = []"
      by (auto simp: specResolvedConstraint_def Let_def split: if_splits)
    show ?thesis
      using True st r
      by (simp add: resolveConstraint_def Let_def sanitize_trim resolveEntity_empty_term
            intersectUuids_def)
  qed
qed

lemma search_short_circuit_when_filters_compile:
  assumes "applyDirectColumnFilters (lenient_dates w) [] (filters c) = Inr q"
      and "specResolvedConstraint w c = Some []"
  shows "fetchRawData w c p = (Inr ([], 0), [])"
  using assms(1) spec_constraint_empty_is_code_constraint_empty[OF assms(2)]
  by (simp add: fetchRawData_def Let_def split: option.splits)

lemma badDate_throws:
  "applyDirectColumnFilters l [] [(js ''created_at'', js ''2024-13-01'')] = Inl RangeError"
proof -
  have t: "trim (js ''2024-13-01'') = js ''2024-13-01''"
    by (simp add: trim_def js_def isWhiteSpace_def)
  have i: "isIsoDate (js ''2024-13-01'')"
    by (simp add: isIsoDate_def js_def isDigit_def)
  have g: "getNextIsoDate l (js ''2024-13-01'') = Inl RangeError"
    by (simp add: getNextIsoDate_def js_def digitsValue_def digitVal_def isDigit_def)
  have k: "js ''created_at'' \<noteq> js ''entity_name''" "js ''created_at'' \<noteq> js ''number_of_checks''"
     "js ''created_at'' \<noteq> js ''last_check_date''" "js ''2024-13-01'' \<noteq> []"
    by (simp_all add: js_def)
  show ?thesis using k by (simp add: applyColumnFilter_def Let_def t i g)
qed

lemma fetchRawData_throws:
  "applyDirectColumnFilters (lenient_dates w) [] (filters c) = Inl e
   \<Longrightarrow> fetchRawData w c p = (Inl e, [])"
  by (simp add: fetchRawData_def Let_def)

text \<open>
  C1. For a query whose search term or entity-name filter is non-empty after
  sanitization and whose resolved identifier constraint is empty, the page fetch is to
  return no rows and a count of zero without querying the Record Store. Whenever the
  column filters compile this is what \<open>fetchRawData\<close> does
  (\<open>search_short_circuit_when_filters_compile\<close>). The column filters are compiled first,
  though, and a created_at filter that has the shape of an ISO date without being a
  calendar date makes \<^verbatim>\<open>getNextIsoDate\<close> throw: with \<^verbatim>\<open>2024-13-01\<close> in that filter and a
  search term that resolves to nothing, the fetch ends in a RangeError instead of the
  empty page.
\<close>

theorem search_short_circuit_preempted_by_created_at:
  "fetchRawData silentWorld (badDateView\<lparr>search := js ''zzz''\<rparr>) p = (Inl RangeError, [])
   \<and> sanitizeSearchTerm (js ''zzz'') \<noteq> []
   \<and> specResolvedConstraint silentWorld (badDateView\<lparr>search := js ''zzz''\<rparr>) = Some []"
proof -
  have s: "sanitizeSearchTerm (js ''zzz'') = js ''zzz''"
    by (simp add: sanitizeSearchTerm_def trim_def js_def isWhiteSpace_def)
  have z: "js ''zzz'' \<noteq> []" by (simp add: js_def)
  have r: "resolveVatUuidsForSearchTerm silentWorld (js ''zzz'') = []"
    using z
    by (simp add: resolveVatUuidsForSearchTerm_def fetchMatchingVatUuidsFromVatNumbers_def
        fetchMatchingVatUuidsFromChecks_def silentWorld_def toUniqueUuids_Nil Let_def)
  have e: "sanitizeSearchTerm (filterValue [(js ''created_at'', js ''2024-13-01'')] (js ''entity_name'')) = []"
    by (simp add: filterValue_def sanitizeSearchTerm_def trim_def js_def)
  have f: "filters (badDateView\<lparr>search := js ''zzz''\<rparr>)
           = [(js ''created_at'', js ''2024-13-01'')]"
       "search (badDateView\<lparr>search := js ''zzz''\<rparr>) = js ''zzz''"
    by (simp_all add: badDateView_def initialView_def)
  have "fetchRawData silentWorld (badDateView\<lparr>search := js ''zzz''\<rparr>) p = (Inl RangeError, [])"
  proof (rule fetchRawData_throws)
    show "applyDirectColumnFilters (lenient_dates silentWorld) []
            (filters (badDateView\<lparr>search := js ''zzz''\<rparr>)) = Inl RangeError"
      unfolding f by (rule badDate_throws)
  qed
  moreover have "specResolvedConstraint silentWorld (badDateView\<lparr>search := js ''zzz''\<rparr>) = Some []"
    unfolding specResolvedConstraint_def f using z by (simp add: s r e Let_def)
  ultimately show ?thesis using z by (simp add: s)
qed

section \<open>Requester selector\<close>

lemma toUpperCase_filter_alnum: "list_all isUpperAlnum (normalizeVatInput v)"
  by (auto simp: normalizeVatInput_def toUpperCase_def list_all_iff isAlnum_def isUpperAlnum_def
        isLowerAlpha_def isUpperAlpha_def isDigit_def)

lemma requester_fail_closed_when_filters_compile:
  assumes "applyDirectColumnFilters (lenient_dates w) [] (filters c) = Inr q"
      and "requesterFilter c \<noteq> js ''__all__''"
      and "\<not> isVatLike (normalizeVatInput (requesterFilter c))"
  shows "fetchRawData w c p = (Inr ([], 0), [])"
  using assms
  by (simp add: fetchRawData_def Let_def requesterConstraint_def requesterMatch_def)

lemma requester_match_constrains_query:
  assumes "requesterFilter c \<noteq> js ''__all__''"
      and "isVatLike (normalizeVatInput (requesterFilter c))"
      and "r \<in> set (snd (fetchRawData w c p))"
  shows "FEq (js ''country_code_requester'') (Str (take 2 (normalizeVatInput (requesterFilter c))))
           \<in> set (preds r)
       \<and> FEq (js ''vat_number_requester'') (Str (drop 2 (normalizeVatInput (requesterFilter c))))
           \<in> set (preds r)"
  using assms
  by (auto simp: fetchRawData_def Let_def requesterConstraint_def requesterMatch_def
        split: sum.splits option.splits if_splits prod.splits)


section \<open>Status selector\<close>

lemma column_status: "column row (js ''reference->>status'')
    = map_option Str (referenceText (reference row) (js ''status''))"
  by (simp add: column_def js_def)

lemma column_periodicity: "column row (js ''periodicity'') = Some (Str (periodicity row))"
  by (simp add: column_def js_def)

lemma column_number_of_checks: "column row (js ''number_of_checks'')
    = map_option (\<lambda>n. Num (Finite (of_int n))) (number_of_checks row)"
  by (simp add: column_def js_def)

lemma sqlOr_Some: "sqlOr (Some a) (Some b) = Some (a \<or> b)"
  by (cases a; cases b) simp_all

lemmas column_simps = column_status column_periodicity column_number_of_checks sqlOr_Some

lemma status_predicates_match_spec_when_flagged:
  assumes "referenceText (reference row) (js ''status'') \<noteq> None"
  shows "selects m (statusPredicates st) row = specStatusSelects st row"
  using assms
  by (cases st; cases "number_of_checks row")
     (auto simp: selects_def column_simps specDeleted_def)

lemma deleted_and_all_match_spec:
  "selects m (statusPredicates StatusDeleted) row = specStatusSelects StatusDeleted row"
  "selects m (statusPredicates StatusAll) row = specStatusSelects StatusAll row"
  by (auto simp: selects_def column_simps specDeleted_def)

lemma unflagged_rows_never_selected:
  assumes "referenceText (reference row) (js ''status'') = None"
      and "st \<noteq> StatusAll"
  shows "\<not> selects m (statusPredicates st) row"
  using assms by (cases st) (auto simp: selects_def column_simps)

text \<open>
  C3. The status selector is to compile to the buckets of the specification, and a row
  whose reference has no status flag is to count as not deleted in the inactive, pending
  and active buckets. The compiled predicates are those of \<open>statusPredicates\<close>, and on
  rows that carry a status flag they select exactly the rows of the specification
  (\<open>status_predicates_match_spec_when_flagged\<close>). The not-deleted condition is compiled
  to \<^verbatim>\<open>.not('reference->>status', 'eq', 'deleted')\<close>, which is unknown, not true, on a row
  without the flag: such a row is in none of the three buckets
  (\<open>unflagged_rows_never_selected\<close>). Here an inactive entry without a flag is in the
  inactive bucket of the specification and is not selected by the compiled query.
\<close>

theorem unflagged_row_dropped_by_status_filter:
  "specStatusSelects StatusInactive unflaggedRow
   \<and> \<not> selects m (statusPredicates StatusInactive) unflaggedRow
   \<and> holds m unflaggedRow (FNot (js ''reference->>status'') (Str (js ''deleted''))) = None"
proof -
  have r: "referenceText (reference unflaggedRow) (js ''status'') = None"
    by (simp add: unflaggedRow_def referenceText_def js_def)
  have p: "periodicity unflaggedRow = js ''inactive''" by (simp add: unflaggedRow_def)
  show ?thesis by (simp add: selects_def column_simps r p specDeleted_def)
qed

section \<open>Completions of superseded requests\<close>

lemma initialView_fields:
  "filters initialView = []" "search initialView = []"
  "requesterFilter initialView = js ''__all__''" "statusFilter initialView = StatusAll"
  "pageSize initialView = 15" "page initialView = 1" "dataCacheRef initialView = Map.empty"
  "dataCache initialView = Map.empty" "totalPages initialView = 1" "loading initialView = True"
  "error initialView = None" "data initialView = []"
  by (simp_all add: initialView_def)

lemma no_search_no_constraint:
  assumes "filters c = []" "search c = []"
  shows "resolveConstraint w c = None"
  unfolding resolveConstraint_def assms
  by (simp add: Let_def filterValue_def trim_def sanitizeSearchTerm_def)

lemma stale_fetch:
  assumes "filters c = []" "search c = []" "requesterFilter c = js ''__all__''"
  shows "fst (fetchRawData staleWorld c p)
           = Inr (if statusFilter c = StatusDeleted then [deletedRow] else [unflaggedRow], 1)"
proof -
  have e: "enrichWithLastCheckResult staleWorld [deletedRow] = [deletedRow]"
          "enrichWithLastCheckResult staleWorld [unflaggedRow] = [unflaggedRow]"
    by (simp_all add: enrichWithLastCheckResult_def staleWorld_def deletedRow_def unflaggedRow_def js_def)
  have sp: "select_page staleWorld r = (if preds r = statusPredicates StatusDeleted
                           then Inr ([deletedRow], Some 1)
                           else Inr ([unflaggedRow], Some 1))" for r
    by (simp add: staleWorld_def)
  have d: "(statusPredicates st = [FEq (js ''reference->>status'') (Str (js ''deleted''))])
             = (st = StatusDeleted)" for st
    by (cases st) (simp_all add: js_def)
  show ?thesis
    unfolding fetchRawData_def assms no_search_no_constraint[OF assms(1,2)]
    by (simp add: Let_def requesterConstraint_def sp d e)
qed

lemma initial_is_mounted:
  "mounted = \<lparr>current = initialView, timer = None, pending = [Load initialView 1]\<rparr>"
  by (simp add: mounted_def loadPageData_def initialView_def Let_def)

lemma deletedView_fields:
  "filters deletedView = []" "search deletedView = []"
  "requesterFilter deletedView = js ''__all__''" "statusFilter deletedView = StatusDeleted"
  "pageSize deletedView = 15" "page deletedView = 1"
  by (simp_all add: deletedView_def initialView_def)

lemma stale_step1:
  "step (ChangeStatus StatusDeleted) mounted
     = \<lparr>current = deletedView, timer = Some deletedView, pending = [Load initialView 1]\<rparr>"
  by (simp add: initial_is_mounted filterEffect_def initialView_fields deletedView_def)

lemma stale_step2:
  "step DebounceElapsed (step (ChangeStatus StatusDeleted) mounted)
     = \<lparr>current = deletedView, timer = None,
        pending = [Load initialView 1, Load deletedView 1]\<rparr>"
  unfolding stale_step1
  by (simp add: debounceElapsed_def loadPageData_def pageEffect_def clearCache_def
        Let_def deletedView_def initialView_def)

lemma stale_step3:
  "step (Settles 1 staleWorld) (step DebounceElapsed (step (ChangeStatus StatusDeleted) mounted))
     = \<lparr>current = deletedView\<lparr>data := [deletedRow], loading := False, totalCount := 1,
                     dataCache := [1 \<mapsto> [deletedRow]], dataCacheRef := [1 \<mapsto> [deletedRow]]\<rparr>,
        timer = None, pending = [Load initialView 1]\<rparr>"
proof -
  have t: "computedTotalPages 1 15 = 1" by (simp add: computedTotalPages_def ceilDiv_def)
  have n: "neighbors 1 1 = []" by (simp add: neighbors_def)
  show ?thesis
    unfolding stale_step2
    by (simp add: settle_def stale_fetch deletedView_fields Let_def
          loadPageDataSettled_def updateCache_def t prefetchNeighbors_def prefetchContinue_def
          maxPageOf_def n)
       (simp add: deletedView_def initialView_def)
qed

text \<open>
  C4. Rows fetched under an earlier filter, search, requester, status or page-size state
  are never to be shown or put into the Page Cache once that state has changed: a
  completion whose query state is no longer current is to be discarded. The view has no
  such check: \<^verbatim>\<open>loadPageData\<close> and \<^verbatim>\<open>prefetchNeighbors\<close> write what their \<^verbatim>\<open>fetchRawData\<close>
  returns, whatever has happened since the call. In \<open>staleTrace\<close> the first load of
  page 1, made with the status \<^emph>\<open>all\<close>, is answered after the status \<^emph>\<open>deleted\<close> has
  taken effect and its own load has been answered: the view then shows, and holds as
  cached page 1, an entry that is not deleted, under the status \<^emph>\<open>deleted\<close>.
\<close>

theorem stale_completion_overwrites_view:
  "statusFilter (current (run staleTrace mounted)) = StatusDeleted
   \<and> data (current (run staleTrace mounted)) = [unflaggedRow]
   \<and> dataCacheRef (current (run staleTrace mounted)) 1 = Some [unflaggedRow]
   \<and> dataCache (current (run staleTrace mounted)) 1 = Some [unflaggedRow]
   \<and> pending (run staleTrace mounted) = []
   \<and> \<not> specStatusSelects StatusDeleted unflaggedRow"
proof -
  have t: "computedTotalPages 1 15 = 1" by (simp add: computedTotalPages_def ceilDiv_def)
  have n: "neighbors 1 1 = []" by (simp add: neighbors_def)
  have r: "run staleTrace mounted
        = step (Settles 0 staleWorld)
            (step (Settles 1 staleWorld)
               (step DebounceElapsed (step (ChangeStatus StatusDeleted) mounted)))"
    by (simp add: run_def staleTrace_def)
  have nd: "\<not> specStatusSelects StatusDeleted unflaggedRow"
    by (simp add: specDeleted_def referenceText_def unflaggedRow_def js_def)
  show ?thesis
    unfolding r stale_step3
    using nd
    by (simp add: settle_def stale_fetch initialView_fields Let_def
          loadPageDataSettled_def updateCache_def t prefetchNeighbors_def prefetchContinue_def
          maxPageOf_def n deletedView_fields)
qed

section \<open>Filter changes reset the page and the cache\<close>

lemma step_filter_change:
  assumes "isFilterChange e"
  shows "pending (step e sys) = pending sys
       \<and> (timer (step e sys) = Some (current (step e sys))
          \<or> (current (step e sys) = current sys \<and> timer (step e sys) = timer sys))"
  using assms by (cases e) (simp_all add: filterEffect_def)

lemma run_Cons: "run (e # evs) sys = run evs (step e sys)"
  by (simp add: run_def)

lemma run_Nil: "run [] sys = sys"
  by (simp add: run_def)

lemma run_filter_changes:
  assumes "list_all isFilterChange evs"
  shows "pending (run evs sys) = pending sys
       \<and> (timer (run evs sys) = Some (current (run evs sys))
          \<or> (current (run evs sys) = current sys \<and> timer (run evs sys) = timer sys))"
  using assms
proof (induction evs arbitrary: sys)
  case Nil
  then show ?case by (simp add: run_Nil)
next
  case (Cons e evs)
  then have e: "isFilterChange e" and evs: "list_all isFilterChange evs" by simp_all
  from Cons.IH[OF evs, of "step e sys"] step_filter_change[OF e, of sys]
  show ?case unfolding run_Cons by auto
qed

lemma debounce_resets:
  assumes "timer sys = Some c"
      and "sys' = step DebounceElapsed sys"
  shows "page (current sys') = 1
       \<and> dataCacheRef (current sys') = Map.empty
       \<and> dataCache (current sys') = Map.empty
       \<and> timer sys' = None
       \<and> Load c 1 \<in> set (pending sys')
       \<and> set (pending sys) \<subseteq> set (pending sys')
       \<and> length (pending sys) < length (pending sys')"
  unfolding assms(2) using assms(1)
  by (auto simp: debounceElapsed_def loadPageData_def pageEffect_def clearCache_def Let_def)

text \<open>
  C5. After every sequence of changes of the free-text search, a column filter, the
  requester selector or the status selector, either a timeout is pending that closes over
  the state after the last change, or nothing has changed; the changes themselves start
  no request. When the pending timeout fires, which is when the change takes effect, the
  page number is 1 and the Page Cache, ref and state copy, is empty, with the new load of
  page 1 and every request from before still pending: the reset precedes the completion
  of any new fetch.
\<close>

theorem filter_change_resets_page_and_cache:
  assumes "list_all isFilterChange evs"
      and "sys1 = run evs sys"
      and "sys' = step DebounceElapsed sys1"
  shows "(timer sys1 = Some (current sys1)
            \<or> (current sys1 = current sys \<and> timer sys1 = timer sys))
       \<and> pending sys1 = pending sys
       \<and> (\<forall>c. timer sys1 = Some c \<longrightarrow>
             page (current sys') = 1
           \<and> dataCacheRef (current sys') = Map.empty
           \<and> dataCache (current sys') = Map.empty
           \<and> Load c 1 \<in> set (pending sys')
           \<and> set (pending sys) \<subseteq> set (pending sys')
           \<and> length (pending sys) < length (pending sys'))"
proof -
  note r = run_filter_changes[OF assms(1), of sys, folded assms(2)]
  have "\<forall>c. timer sys1 = Some c \<longrightarrow>
             page (current sys') = 1
           \<and> dataCacheRef (current sys') = Map.empty
           \<and> dataCache (current sys') = Map.empty
           \<and> Load c 1 \<in> set (pending sys')
           \<and> set (pending sys) \<subseteq> set (pending sys')
           \<and> length (pending sys) < length (pending sys')"
  proof (intro allI impI)
    fix c assume t: "timer sys1 = Some c"
    from debounce_resets[OF t assms(3)] r
    show "page (current sys') = 1
           \<and> dataCacheRef (current sys') = Map.empty
           \<and> dataCache (current sys') = Map.empty
           \<and> Load c 1 \<in> set (pending sys')
           \<and> set (pending sys) \<subseteq> set (pending sys')
           \<and> length (pending sys) < length (pending sys')"
      by simp
  qed
  with r show ?thesis by blast
qed


text \<open>
  The theorem for a search term and a status picked on page 3 with that page cached.
\<close>

theorem filter_change_resets_page_and_cache_witness:
  "list_all isFilterChange [ChangeSearch (js ''fr''), ChangeStatus StatusDeleted]
   \<and> page (current browsing) = 3
   \<and> dataCacheRef (current browsing) 3 = Some [unflaggedRow]
   \<and> page (current (step DebounceElapsed
         (run [ChangeSearch (js ''fr''), ChangeStatus StatusDeleted] browsing))) = 1
   \<and> dataCacheRef (current (step DebounceElapsed
         (run [ChangeSearch (js ''fr''), ChangeStatus StatusDeleted] browsing))) = Map.empty
   \<and> dataCache (current (step DebounceElapsed
         (run [ChangeSearch (js ''fr''), ChangeStatus StatusDeleted] browsing))) = Map.empty"
proof -
  let ?evs = "[ChangeSearch (js ''fr''), ChangeStatus StatusDeleted]"
  have l: "list_all isFilterChange ?evs" by simp
  have b: "page (current browsing) = 3" "dataCacheRef (current browsing) 3 = Some [unflaggedRow]"
          "search (current browsing) = []" "statusFilter (current browsing) = StatusAll"
    by (simp_all add: browsing_def thirdPageView_def initialView_def)
  have f: "js ''fr'' \<noteq> []" by (simp add: js_def)
  have a: "timer (run ?evs browsing) = Some (current (run ?evs browsing))"
    using f by (simp add: run_def filterEffect_def b)
  from filter_change_resets_page_and_cache[OF l refl refl, of browsing] a
  have "page (current (step DebounceElapsed (run ?evs browsing))) = 1
      \<and> dataCacheRef (current (step DebounceElapsed (run ?evs browsing))) = Map.empty
      \<and> dataCache (current (step DebounceElapsed (run ?evs browsing))) = Map.empty"
    by blast
  with l b show ?thesis by simp
qed

section \<open>Optimistic periodicity update\<close>











section \<open>Soft delete\<close>





section \<open>Neighbour prefetch\<close>




















section \<open>Check-count column filter\<close>










section \<open>The cap of the Search Resolver's lookups\<close>

lemma length_toUniqueUuids: "length (toUniqueUuids xs) \<le> length xs"
proof -
  have r: "length (rev (remdups (rev ys))) \<le> length ys" for ys :: "jsstring list"
    using length_remdups_leq[of "rev ys"] by simp
  have "length (toUniqueUuids xs)
        \<le> length (filter (\<lambda>v. v \<noteq> []) (map (\<lambda>v. case v of Some s \<Rightarrow> trim s | None \<Rightarrow> []) xs))"
    unfolding toUniqueUuids_def by (rule r)
  also have "\<dots> \<le> length xs" by (metis length_filter_le length_map)
  finally show ?thesis .
qed

lemma set_toUniqueUuids:
  "set (toUniqueUuids xs) = {trim s | s. Some s \<in> set xs \<and> trim s \<noteq> []}"
  unfolding toUniqueUuids_def by (auto split: option.splits) force

lemma length_fromVatNumbers: "length (fetchMatchingVatUuidsFromVatNumbers w t m) \<le> 2000"
proof -
  have "length (toUniqueUuids (take 2000 rows)) \<le> 2000" for rows
    using length_toUniqueUuids[of "take 2000 rows"] by simp
  then show ?thesis
    by (simp add: fetchMatchingVatUuidsFromVatNumbers_def Let_def split: sum.splits)
qed

lemma length_fromChecks: "length (fetchMatchingVatUuidsFromChecks w t) \<le> 2000"
proof -
  have "length (toUniqueUuids (take 2000 rows)) \<le> 2000" for rows
    using length_toUniqueUuids[of "take 2000 rows"] by simp
  then show ?thesis
    by (simp add: fetchMatchingVatUuidsFromChecks_def Let_def split: sum.splits)
qed

lemma length_resolveSearch: "length (resolveVatUuidsForSearchTerm w t) \<le> 4000"
proof -
  have "length (resolveVatUuidsForSearchTerm w t)
        \<le> length (fetchMatchingVatUuidsFromVatNumbers w t SearchMode)
          + length (fetchMatchingVatUuidsFromChecks w t)"
    unfolding resolveVatUuidsForSearchTerm_def Let_def
    using length_toUniqueUuids[of "map Some (fetchMatchingVatUuidsFromVatNumbers w t SearchMode
        @ fetchMatchingVatUuidsFromChecks w t)"] by simp
  with length_fromVatNumbers[of w t SearchMode] length_fromChecks[of w t] show ?thesis by linarith
qed

lemma length_resolveEntity: "length (resolveVatUuidsForEntityFilter w t) \<le> 4000"
proof -
  have "length (resolveVatUuidsForEntityFilter w t)
        \<le> length (fetchMatchingVatUuidsFromVatNumbers w t EntityMode)
          + length (fetchMatchingVatUuidsFromChecks w t)"
    unfolding resolveVatUuidsForEntityFilter_def Let_def
    using length_toUniqueUuids[of "map Some (fetchMatchingVatUuidsFromVatNumbers w t EntityMode
        @ fetchMatchingVatUuidsFromChecks w t)"] by simp
  with length_fromVatNumbers[of w t EntityMode] length_fromChecks[of w t] show ?thesis by linarith
qed

lemma trim_replicate_a: "trim (replicate n (97::nat)) = replicate n (97::nat)"
proof -
  have "\<not> isWhiteSpace (97::nat)" by (simp add: isWhiteSpace_def)
  then have "dropWhile isWhiteSpace (replicate n (97::nat)) = replicate n (97::nat)"
    by (cases n) auto
  then show ?thesis by (simp add: trim_def)
qed

lemma take_manyUuids: "take 2000 (manyUuids 2001) = manyUuids 2000"
  by (simp add: manyUuids_def take_map)

lemma set_manyUuids: "set (manyUuids n) = {Some (replicate (Suc i) (97::nat)) | i. i < n}"
  by (auto simp: manyUuids_def simp del: replicate_Suc)

lemma omitted_entry:
  "Some (replicate 2001 (97::nat))
     \<in> set (case vat_numbers_uuids crowdedWorld q of Inr rows \<Rightarrow> rows | Inl e \<Rightarrow> [])"
  "replicate 2001 (97::nat) \<notin> set (resolveVatUuidsForSearchTerm crowdedWorld (js ''a''))"
proof -
  have n: "(2001::nat) = Suc 2000" by simp
  show "Some (replicate 2001 (97::nat))
     \<in> set (case vat_numbers_uuids crowdedWorld q of Inr rows \<Rightarrow> rows | Inl e \<Rightarrow> [])"
    unfolding n by (auto simp: crowdedWorld_def set_manyUuids simp del: replicate_Suc)
  have a: "js ''a'' \<noteq> []" by (simp add: js_def)
  have v: "set (fetchMatchingVatUuidsFromVatNumbers crowdedWorld (js ''a'') SearchMode)
           \<subseteq> {replicate (Suc i) (97::nat) | i. i < 2000}"
    using a
    by (auto simp: fetchMatchingVatUuidsFromVatNumbers_def Let_def crowdedWorld_def
          take_manyUuids set_manyUuids set_toUniqueUuids trim_replicate_a simp del: replicate_Suc)
  have c: "fetchMatchingVatUuidsFromChecks crowdedWorld (js ''a'') = []"
    using a by (simp add: fetchMatchingVatUuidsFromChecks_def Let_def crowdedWorld_def toUniqueUuids_def)
  have "set (resolveVatUuidsForSearchTerm crowdedWorld (js ''a''))
        \<subseteq> {replicate (Suc i) (97::nat) | i. i < 2000}"
  proof
    fix x assume "x \<in> set (resolveVatUuidsForSearchTerm crowdedWorld (js ''a''))"
    then obtain s where s: "s \<in> set (fetchMatchingVatUuidsFromVatNumbers crowdedWorld (js ''a'') SearchMode)"
      and x: "x = trim s"
      by (auto simp: resolveVatUuidsForSearchTerm_def Let_def c set_toUniqueUuids)
    from s v obtain i where i: "i < 2000" "s = replicate (Suc i) (97::nat)" by auto
    with x show "x \<in> {replicate (Suc i) (97::nat) | i. i < 2000}"
      by (auto simp: trim_replicate_a simp del: replicate_Suc)
  qed
  moreover have "replicate 2001 (97::nat) \<notin> {replicate (Suc i) (97::nat) | i. i < 2000}"
  proof
    assume "replicate 2001 (97::nat) \<in> {replicate (Suc i) (97::nat) | i. i < 2000}"
    then obtain i where "i < 2000" "replicate 2001 (97::nat) = replicate (Suc i) (97::nat)"
      by auto
    then have "length (replicate 2001 (97::nat)) = length (replicate (Suc i) (97::nat))"
      by simp
    with \<open>i < 2000\<close> show False by simp
  qed
  ultimately show "replicate 2001 (97::nat) \<notin> set (resolveVatUuidsForSearchTerm crowdedWorld (js ''a''))"
    by blast
qed


lemma first_uuid_listed: "Some (replicate (Suc 0) (97::nat)) \<in> set (manyUuids 2000)"
    by (auto simp: set_manyUuids simp del: replicate_Suc intro!: exI[of _ 0])

lemma first_uuid_resolved: "replicate (Suc 0) (97::nat)
               \<in> set (fetchMatchingVatUuidsFromVatNumbers crowdedWorld (js ''a'') SearchMode)"
proof -
  have a: "js ''a'' \<noteq> []" by (simp add: js_def)
  have "fetchMatchingVatUuidsFromVatNumbers crowdedWorld (js ''a'') SearchMode
         = toUniqueUuids (manyUuids 2000)"
    using a
    by (simp add: fetchMatchingVatUuidsFromVatNumbers_def Let_def crowdedWorld_def take_manyUuids)
  moreover have "replicate (Suc 0) (97::nat) \<in> set (toUniqueUuids (manyUuids 2000))"
    unfolding set_toUniqueUuids using first_uuid_listed trim_replicate_a[of "Suc 0"]
    by (auto simp del: replicate_Suc intro!: exI[of _ "replicate (Suc 0) (97::nat)"])
  ultimately show ?thesis by simp
qed


lemma crowded_allow_list_nonempty:
  "resolveVatUuidsForSearchTerm crowdedWorld (js ''a'') \<noteq> []"
proof -
  have "replicate (Suc 0) (97::nat) \<in> set (resolveVatUuidsForSearchTerm crowdedWorld (js ''a''))"
    unfolding resolveVatUuidsForSearchTerm_def Let_def set_toUniqueUuids
    using first_uuid_resolved trim_replicate_a[of "Suc 0"]
    by (auto simp del: replicate_Suc intro!: exI[of _ "replicate (Suc 0) (97::nat)"])
  then show ?thesis by auto
qed

lemma crowded_page_query:
  "map preds (snd (fetchRawData crowdedWorld (initialView\<lparr>search := js ''a''\<rparr>) p))
     = [[FIn (js ''uuid'') (resolveVatUuidsForSearchTerm crowdedWorld (js ''a''))]]"
proof -
  let ?c = "initialView\<lparr>search := js ''a''\<rparr>"
  have s: "sanitizeSearchTerm (js ''a'') = js ''a''"
    by (simp add: sanitizeSearchTerm_def trim_def js_def isWhiteSpace_def)
  have a: "js ''a'' \<noteq> []" by (simp add: js_def)
  have f: "filters ?c = []" "search ?c = js ''a''" "requesterFilter ?c = js ''__all__''"
          "statusFilter ?c = StatusAll"
    by (simp_all add: initialView_def)
  have rc: "resolveConstraint crowdedWorld ?c
              = Some (resolveVatUuidsForSearchTerm crowdedWorld (js ''a''))"
    unfolding resolveConstraint_def f using a
    by (simp add: s Let_def filterValue_def trim_def)
  have sp: "select_page crowdedWorld r = Inr ([], Some 0)" for r
    by (simp add: crowdedWorld_def)
  show ?thesis
    unfolding fetchRawData_def f rc
    using crowded_allow_list_nonempty by (simp add: Let_def requesterConstraint_def sp)
qed

lemma last_uuid_listed: "Some (replicate 2001 (97::nat)) \<in> set (manyUuids 2001)"
proof -
  have n: "(2001::nat) = Suc 2000" by simp
  show ?thesis unfolding n
    by (auto simp: set_manyUuids simp del: replicate_Suc intro!: exI[of _ 2000])
qed

text \<open>
  C10. Each lookup of the Search Resolver returns at most 2000 identifiers, so the
  allow-list of a term has at most 4000; and an entry that matches can be missing from
  the allow-list: in \<open>crowdedWorld\<close> the entry collection has 2001 matching rows, the
  identifier of the last one is not in the allow-list of the term \<^verbatim>\<open>a\<close>, and the page
  query is restricted to that allow-list.
\<close>

theorem search_resolver_lookups_capped:
  "length (fetchMatchingVatUuidsFromVatNumbers w t m) \<le> 2000
   \<and> length (fetchMatchingVatUuidsFromChecks w t) \<le> 2000
   \<and> length (resolveVatUuidsForSearchTerm w t) \<le> 4000
   \<and> length (resolveVatUuidsForEntityFilter w t) \<le> 4000
   \<and> vat_numbers_uuids crowdedWorld q = Inr (manyUuids 2001)
   \<and> Some (replicate 2001 97) \<in> set (manyUuids 2001)
   \<and> replicate 2001 97 \<notin> set (resolveVatUuidsForSearchTerm crowdedWorld (js ''a''))
   \<and> map preds (snd (fetchRawData crowdedWorld (initialView\<lparr>search := js ''a''\<rparr>) p))
       = [[FIn (js ''uuid'') (resolveVatUuidsForSearchTerm crowdedWorld (js ''a''))]]"
proof -
  have rows: "vat_numbers_uuids crowdedWorld q = Inr (manyUuids 2001)"
    by (simp add: crowdedWorld_def)
  show ?thesis
    by (intro conjI)
       (rule length_fromVatNumbers, rule length_fromChecks, rule length_resolveSearch,
        rule length_resolveEntity, rule rows, rule last_uuid_listed, rule omitted_entry(2),
        rule crowded_page_query)
qed

end
